theory Spec2Isabelle
  imports Main
begin

section \<open>Strings: \<open>str.lower\<close> and \<open>str.endswith\<close>\<close>

text \<open>
  Paths and tag names are byte strings. \<open>lower\<close> maps the ASCII letters \<open>A\<close>..\<open>Z\<close>
  to \<open>a\<close>..\<open>z\<close> and leaves every other byte alone. The three suffixes tested by
  the program are pure ASCII, and no byte of a multi-byte UTF-8 sequence is an ASCII
  byte, so on the suffix tests below this agrees with Python's \<open>str.lower\<close>.
\<close>

definition lower_char :: "char \<Rightarrow> char" where
  "lower_char c =
     (case map_of (zip ''ABCDEFGHIJKLMNOPQRSTUVWXYZ'' ''abcdefghijklmnopqrstuvwxyz'') c of
        Some d \<Rightarrow> d
      | None \<Rightarrow> c)"

definition lower :: "string \<Rightarrow> string" where
  "lower s = map lower_char s"

definition endswith :: "string \<Rightarrow> string \<Rightarrow> bool" where
  "endswith s suf =
     (length suf \<le> length s \<and> drop (length s - length suf) s = suf)"

section \<open>Exceptions, log records and library calls\<close>

text \<open>
  The exception classes the program distinguishes by its \<open>except\<close> clauses. Each
  value carries the text that \<open>str(e)\<close> yields; \<open>OtherError\<close> stands for any
  exception that is none of the classes handled by name.
\<close>

datatype error =
    FileNotFoundError string
  | ValueError string
  | KeyError string
  | ID3NoHeaderError string
  | OtherError string

fun str :: "error \<Rightarrow> string" where
  "str (FileNotFoundError m) = m"
| "str (ValueError m) = m"
| "str (KeyError m) = m"
| "str (ID3NoHeaderError m) = m"
| "str (OtherError m) = m"

datatype level = INFO | WARNING | ERROR

text \<open>
  The calls the program makes into the tag library, in the order of the source, and
  \<open>OpenLog\<close>, the opening of a log file by \<open>logging.FileHandler\<close>.
\<close>

datatype libcall =
    LoadMP3 string
  | LoadFLAC string
  | LoadWAVE string
  | LoadID3 string
  | DelItem string
  | Save string
  | ID3Delete string
  | OpenLog string

datatype event = Call libcall | Log level string

text \<open>
  A tag container is a mapping from tag name to tag value, kept as an association list
  so that \<open>keys\<close> has an order to iterate in.
\<close>

type_synonym container = "(string \<times> string) list"

definition keys :: "container \<Rightarrow> string list" where
  "keys audio = map fst audio"

text \<open>
  The world the program acts on. A file is represented by its tag state alone:
  \<open>None\<close> is a file without a tag header (MP3), without a comment block (FLAC) or
  without an ID3 sub-container (WAV); the audio payload is touched by no operation of
  the program and is left out. \<open>trace\<close> collects, in order, every library call and
  every log record; \<open>handlers\<close> are the log files attached by \<open>main\<close>: the file of
  a handler receives, appended to it, every record logged after the handler was attached.
\<close>

record world =
  files :: "string \<rightharpoonup> container option"
  trace :: "event list"
  handlers :: "string list"

type_synonym faults = "libcall \<Rightarrow> string option"

definition emit :: "event \<Rightarrow> world \<Rightarrow> world" where
  "emit e w = w\<lparr>trace := trace w @ [e]\<rparr>"

definition logging :: "level \<Rightarrow> string \<Rightarrow> world \<Rightarrow> world" where
  "logging l m w = emit (Log l m) w"

definition quote :: "string \<Rightarrow> string" where
  "quote s = [CHR 0x27] @ s @ [CHR 0x27]"

section \<open>The tag library\<close>

text \<open>
  Modelled from the spec: the third-party tag library (mutagen), which is not part of
  the repository. The spec treats it as a collaborator with the capability
  "load file, key-enumerable tag container, save file" (sections 1, 3 and 4.2 to 4.5).
  A library call may also fail for a reason of its own; \<open>F call = Some m\<close> makes the
  call raise an exception of no specially handled class with message \<open>m\<close>.
\<close>

definition open_file :: "faults \<Rightarrow> libcall \<Rightarrow> string \<Rightarrow> world \<Rightarrow> (error + container option) \<times> world" where
  "open_file F c path w =
     (let w1 = emit (Call c) w
      in case files w path of
           None \<Rightarrow> (Inl (FileNotFoundError (''[Errno 2] No such file or directory: '' @ quote path)), w1)
         | Some f \<Rightarrow>
             (case F c of
                Some m \<Rightarrow> (Inl (OtherError m), w1)
              | None \<Rightarrow> (Inr f, w1)))"

text \<open>
  Modelled from the spec: loading an MP3 file with the easy tag scheme. A file without a
  tag header raises \<open>ID3NoHeaderError\<close> (section 4.2).
\<close>

definition MP3 :: "faults \<Rightarrow> string \<Rightarrow> world \<Rightarrow> (error + container) \<times> world" where
  "MP3 F path w =
     (case open_file F (LoadMP3 path) path w of
        (Inl e, w1) \<Rightarrow> (Inl e, w1)
      | (Inr None, w1) \<Rightarrow> (Inl (ID3NoHeaderError (path @ '': an ID3 tag was not found'')), w1)
      | (Inr (Some tags), w1) \<Rightarrow> (Inr tags, w1))"

text \<open>
  Modelled from the spec: loading a FLAC file always yields a container, possibly
  empty (section 4.2).
\<close>

definition FLAC :: "faults \<Rightarrow> string \<Rightarrow> world \<Rightarrow> (error + container) \<times> world" where
  "FLAC F path w =
     (case open_file F (LoadFLAC path) path w of
        (Inl e, w1) \<Rightarrow> (Inl e, w1)
      | (Inr None, w1) \<Rightarrow> (Inr [], w1)
      | (Inr (Some tags), w1) \<Rightarrow> (Inr tags, w1))"

text \<open>
  Modelled from the spec: loading a WAV file. The object exposes no key-value store
  (section 4.5), so nothing but success or failure is returned.
\<close>

definition WAVE :: "faults \<Rightarrow> string \<Rightarrow> world \<Rightarrow> (error + unit) \<times> world" where
  "WAVE F path w =
     (case open_file F (LoadWAVE path) path w of
        (Inl e, w1) \<Rightarrow> (Inl e, w1)
      | (Inr _, w1) \<Rightarrow> (Inr (), w1))"

text \<open>
  Modelled from the spec: loading the ID3 sub-container of a file; an absent
  sub-container raises \<open>ID3NoHeaderError\<close> (section 4.2).
\<close>

definition ID3 :: "faults \<Rightarrow> string \<Rightarrow> world \<Rightarrow> (error + container) \<times> world" where
  "ID3 F path w =
     (case open_file F (LoadID3 path) path w of
        (Inl e, w1) \<Rightarrow> (Inl e, w1)
      | (Inr None, w1) \<Rightarrow> (Inl (ID3NoHeaderError (path @ '' doesn't start with an ID3 tag'')), w1)
      | (Inr (Some tags), w1) \<Rightarrow> (Inr tags, w1))"

text \<open>
  Modelled from the spec: \<open>audio_id3.delete()\<close> removes the sub-container from the
  file it was loaded from, at once (section 4.5).
\<close>

definition ID3_delete :: "faults \<Rightarrow> string \<Rightarrow> world \<Rightarrow> (error + unit) \<times> world" where
  "ID3_delete F path w =
     (let w1 = emit (Call (ID3Delete path)) w
      in case F (ID3Delete path) of
           Some m \<Rightarrow> (Inl (OtherError m), w1)
         | None \<Rightarrow> (Inr (), w1\<lparr>files := (files w1)(path \<mapsto> None)\<rparr>))"

text \<open>
  Modelled from the spec: \<open>del audio[tag]\<close>. A key that is absent raises
  \<open>KeyError\<close>; any other failure of the library is a different exception
  (section 4.4). The container in memory changes, the file does not.
\<close>

definition delitem :: "faults \<Rightarrow> string \<Rightarrow> container \<Rightarrow> world \<Rightarrow> (error + container) \<times> world" where
  "delitem F tag audio w =
     (let w1 = emit (Call (DelItem tag)) w
      in if tag \<notin> set (keys audio) then (Inl (KeyError (quote tag)), w1)
         else case F (DelItem tag) of
                Some m \<Rightarrow> (Inl (OtherError m), w1)
              | None \<Rightarrow> (Inr (filter (\<lambda>kv. fst kv \<noteq> tag) audio), w1))"

text \<open>
  Modelled from the spec: \<open>audio.save(path)\<close> writes the container to the given
  path (section 4.4); a failing save writes nothing.
\<close>

definition save :: "faults \<Rightarrow> container \<Rightarrow> string \<Rightarrow> world \<Rightarrow> (error + unit) \<times> world" where
  "save F audio path w =
     (let w1 = emit (Call (Save path)) w
      in case F (Save path) of
           Some m \<Rightarrow> (Inl (OtherError m), w1)
         | None \<Rightarrow> (Inr (), w1\<lparr>files := (files w1)(path \<mapsto> Some audio)\<rparr>))"

section \<open>\<open>remove_metadata\<close>\<close>

text \<open>
  The delete loop of lines 66 to 73 (MP3) and 81 to 88 (FLAC), which are the same code:
  a \<open>KeyError\<close> is logged as a warning and the loop goes on; any other exception is
  logged as an error and raised again.
\<close>

fun delete_tags :: "faults \<Rightarrow> string \<Rightarrow> string list \<Rightarrow> container \<Rightarrow> world \<Rightarrow> (error + container) \<times> world" where
  "delete_tags F input_file [] audio w = (Inr audio, w)"
| "delete_tags F input_file (tag # rest) audio w =
     (case delitem F tag audio w of
        (Inr audio1, w1) \<Rightarrow> delete_tags F input_file rest audio1 w1
      | (Inl (KeyError m), w1) \<Rightarrow>
          delete_tags F input_file rest audio
            (logging WARNING (''Tag '' @ quote tag @ '' not found in '' @ input_file @ '', skipping.'') w1)
      | (Inl e, w1) \<Rightarrow>
          (Inl e, logging ERROR (''Error deleting tag '' @ quote tag @ '' from '' @ input_file @ '': '' @ str e) w1))"

text \<open>
  The keep-list is tested for truthiness: \<open>None\<close> and the empty list both select
  every key.
\<close>

definition tags_to_remove :: "container \<Rightarrow> string list option \<Rightarrow> string list" where
  "tags_to_remove audio keep_tags =
     (case keep_tags of
        None \<Rightarrow> keys audio
      | Some ks \<Rightarrow> (if ks \<noteq> [] then filter (\<lambda>tag. tag \<notin> set ks) (keys audio) else keys audio))"

text \<open>Lines 91 to 102: the WAV branch.\<close>

definition remove_wav_id3 :: "faults \<Rightarrow> string \<Rightarrow> world \<Rightarrow> (error + unit) \<times> world" where
  "remove_wav_id3 F input_file w =
     (let handler = (\<lambda>e w1.
            case e of
              ID3NoHeaderError m \<Rightarrow> (Inr (), logging INFO (''No ID3 tags found in '' @ input_file @ ''.'') w1)
            | _ \<Rightarrow> (Inl e, logging ERROR (''Error while removing ID3 tags from '' @ input_file @ '': '' @ str e) w1))
      in case ID3 F input_file w of
           (Inl e, w1) \<Rightarrow> handler e w1
         | (Inr audio_id3, w1) \<Rightarrow>
             (case ID3_delete F input_file w1 of
                (Inl e, w2) \<Rightarrow> handler e w2
              | (Inr _, w2) \<Rightarrow> (Inr (), logging INFO (''ID3 tags removed from '' @ input_file) w2)))"

text \<open>Lines 106 to 116: saving.\<close>

definition save_step :: "faults \<Rightarrow> string \<Rightarrow> container \<Rightarrow> string \<Rightarrow> string \<Rightarrow> world \<Rightarrow> (error + unit) \<times> world" where
  "save_step F file_type audio input_file output_file w =
     (if file_type \<noteq> ''wav'' then
        (case save F audio output_file w of
           (Inr _, w1) \<Rightarrow>
             (Inr (), logging INFO (''Metadata removed from '' @ input_file @ '' and saved to '' @ output_file) w1)
         | (Inl e, w1) \<Rightarrow>
             (Inl e, logging ERROR (''Error saving file '' @ output_file @ '': '' @ str e) w1))
      else (Inr (), logging INFO (''ID3 metadata removed from '' @ input_file @ ''.'') w))"

text \<open>
  Lines 55 to 116, entered once the file is loaded. For a WAV file \<open>audio\<close> is never
  read.
\<close>

definition process :: "faults \<Rightarrow> string \<Rightarrow> container \<Rightarrow> string \<Rightarrow> string option \<Rightarrow> string list option \<Rightarrow> world \<Rightarrow> (error + unit) \<times> world" where
  "process F file_type audio input_file output_file keep_tags w =
     (let output_file1 = (case output_file of None \<Rightarrow> input_file | Some p \<Rightarrow> p)
      in if file_type = ''mp3'' \<or> file_type = ''flac'' then
           (case delete_tags F input_file (tags_to_remove audio keep_tags) audio w of
              (Inl e, w1) \<Rightarrow> (Inl e, w1)
            | (Inr audio1, w1) \<Rightarrow> save_step F file_type audio1 input_file output_file1 w1)
         else if file_type = ''wav'' then
           (case remove_wav_id3 F input_file w of
              (Inl e, w1) \<Rightarrow> (Inl e, w1)
            | (Inr _, w1) \<Rightarrow> save_step F file_type audio input_file output_file1 w1)
         else save_step F file_type audio input_file output_file1 w)"

text \<open>Lines 39 to 53 followed by the rest of the \<open>try\<close> block.\<close>

definition remove_metadata_try :: "faults \<Rightarrow> string \<Rightarrow> string option \<Rightarrow> string list option \<Rightarrow> world \<Rightarrow> (error + unit) \<times> world" where
  "remove_metadata_try F input_file output_file keep_tags w =
     (if endswith (lower input_file) ''.mp3'' then
        (case MP3 F input_file w of
           (Inl (ID3NoHeaderError m), w1) \<Rightarrow>
             (Inr (), logging WARNING (''No ID3 header found in '' @ input_file @ ''.  Skipping metadata removal.'') w1)
         | (Inl e, w1) \<Rightarrow> (Inl e, w1)
         | (Inr audio, w1) \<Rightarrow> process F ''mp3'' audio input_file output_file keep_tags w1)
      else if endswith (lower input_file) ''.flac'' then
        (case FLAC F input_file w of
           (Inl e, w1) \<Rightarrow> (Inl e, w1)
         | (Inr audio, w1) \<Rightarrow> process F ''flac'' audio input_file output_file keep_tags w1)
      else if endswith (lower input_file) ''.wav'' then
        (case WAVE F input_file w of
           (Inl e, w1) \<Rightarrow> (Inl e, w1)
         | (Inr _, w1) \<Rightarrow> process F ''wav'' [] input_file output_file keep_tags w1)
      else (Inl (ValueError ''Unsupported file format. Supported formats: MP3, FLAC, WAV''), w))"

text \<open>Lines 118 to 126: every exception that leaves the \<open>try\<close> block is logged and raised again.\<close>

definition remove_metadata :: "faults \<Rightarrow> string \<Rightarrow> string option \<Rightarrow> string list option \<Rightarrow> world \<Rightarrow> (error + unit) \<times> world" where
  "remove_metadata F input_file output_file keep_tags w =
     (case remove_metadata_try F input_file output_file keep_tags w of
        (Inr u, w1) \<Rightarrow> (Inr u, w1)
      | (Inl (FileNotFoundError m), w1) \<Rightarrow>
          (Inl (FileNotFoundError m), logging ERROR (''File not found: '' @ input_file) w1)
      | (Inl (ValueError m), w1) \<Rightarrow> (Inl (ValueError m), logging ERROR m w1)
      | (Inl e, w1) \<Rightarrow> (Inl e, logging ERROR (''An unexpected error occurred: '' @ str e) w1))"

section \<open>\<open>main\<close>\<close>

record args =
  input_file :: string
  output_file :: "string option"
  keep :: "string list option"
  log_file :: "string option"

text \<open>
  Modelled from the spec: \<open>logging.FileHandler\<close> of the standard library, which is not
  part of the repository. The log file is a path to append log lines to (section 6): the
  handler opens the file for appending at once, which creates it when it does not exist,
  and raises when the file cannot be opened.
\<close>

definition FileHandler :: "faults \<Rightarrow> string \<Rightarrow> world \<Rightarrow> (error + string) \<times> world" where
  "FileHandler F path w =
     (let w1 = emit (Call (OpenLog path)) w
      in case F (OpenLog path) of
           Some m \<Rightarrow> (Inl (OtherError m), w1)
         | None \<Rightarrow>
             (Inr path,
              w1\<lparr>files := (case files w1 path of None \<Rightarrow> (files w1)(path \<mapsto> None) | Some f \<Rightarrow> files w1)\<rparr>))"

definition addHandler :: "string \<Rightarrow> world \<Rightarrow> world" where
  "addHandler file_handler w = w\<lparr>handlers := handlers w @ [file_handler]\<rparr>"

text \<open>
  Lines 134 to 140, which come before the \<open>try\<close> block of \<open>main\<close>: an exception of
  \<open>FileHandler\<close> is caught by nothing.
\<close>

definition attach_log_file :: "faults \<Rightarrow> args \<Rightarrow> world \<Rightarrow> (error + unit) \<times> world" where
  "attach_log_file F a w =
     (case log_file a of
        None \<Rightarrow> (Inr (), w)
      | Some lf \<Rightarrow>
          (if lf \<noteq> [] then
             (case FileHandler F lf w of
                (Inl e, w1) \<Rightarrow> (Inl e, w1)
              | (Inr file_handler, w1) \<Rightarrow> (Inr (), addHandler file_handler w1))
           else (Inr (), w)))"

text \<open>
  Lines 148 to 152: what \<open>main\<close> prints on standard output and the exit status, after
  \<open>remove_metadata\<close> returned or raised.
\<close>

definition report :: "(error + unit) \<times> world \<Rightarrow> int \<times> string list \<times> world" where
  "report res =
     (case res of
        (Inr u, w1) \<Rightarrow> (0, [''Metadata removal complete.''], w1)
      | (Inl e, w1) \<Rightarrow> (1, [''Error: '' @ str e], w1))"

text \<open>
  \<open>main\<close> returns the exit status of the process, the lines it prints on standard
  output, and the world. The status is 0 when \<open>main\<close> returns normally and 1 from
  \<open>sys.exit(1)\<close>; an exception that nothing catches ends the process with status 1 as
  well, and prints nothing on standard output (the traceback goes to standard error).
\<close>

definition main :: "faults \<Rightarrow> args \<Rightarrow> world \<Rightarrow> int \<times> string list \<times> world" where
  "main F a w =
     (case attach_log_file F a w of
        (Inl e, w0) \<Rightarrow> (1, [], w0)
      | (Inr u, w0) \<Rightarrow>
          report
            (if (case keep a of None \<Rightarrow> False | Some ks \<Rightarrow> ks \<noteq> [])
             then remove_metadata F (input_file a) (output_file a) (keep a) w0
             else remove_metadata F (input_file a) (output_file a) None w0))"

section \<open>Vocabulary for the properties\<close>

text \<open>
  The library calls in a trace, the saves among them, the warnings in a trace, the path
  that \<open>save\<close> writes to, the tags of a file, and the keep-list as a list (no keep-list keeps
  nothing).
\<close>

fun calls :: "event list \<Rightarrow> libcall list" where
  "calls [] = []"
| "calls (Call c # es) = c # calls es"
| "calls (Log l m # es) = calls es"

fun is_save :: "libcall \<Rightarrow> bool" where
  "is_save (Save path) = True"
| "is_save c = False"

fun is_warning :: "event \<Rightarrow> bool" where
  "is_warning (Log WARNING m) = True"
| "is_warning e = False"

definition target :: "string \<Rightarrow> string option \<Rightarrow> string" where
  "target p out = (case out of None \<Rightarrow> p | Some q \<Rightarrow> q)"

definition tags_of :: "container option \<Rightarrow> container" where
  "tags_of f = (case f of None \<Rightarrow> [] | Some audio \<Rightarrow> audio)"

definition kept :: "string list option \<Rightarrow> string list" where
  "kept keep_tags = (case keep_tags of None \<Rightarrow> [] | Some ks \<Rightarrow> ks)"

text \<open>A later world extends an earlier one when its trace only grew.\<close>

definition extends :: "world \<Rightarrow> world \<Rightarrow> bool" where
  "extends w w' = (\<exists>evs. trace w' = trace w @ evs)"

section \<open>Suffix tests\<close>

lemma endswith_last: "endswith s suf \<Longrightarrow> suf \<noteq> [] \<Longrightarrow> last s = last suf"
  unfolding endswith_def
  by (metis append_take_drop_id last_appendR)

lemma wav_not_mp3: "endswith s ''.wav'' \<Longrightarrow> \<not> endswith s ''.mp3''"
  using endswith_last[of s "''.wav''"] endswith_last[of s "''.mp3''"] by auto

lemma wav_not_flac: "endswith s ''.wav'' \<Longrightarrow> \<not> endswith s ''.flac''"
  using endswith_last[of s "''.wav''"] endswith_last[of s "''.flac''"] by auto

lemma flac_not_mp3: "endswith s ''.flac'' \<Longrightarrow> \<not> endswith s ''.mp3''"
  using endswith_last[of s "''.flac''"] endswith_last[of s "''.mp3''"] by auto

section \<open>The keep-list and single deletions\<close>

lemma tags_to_remove_empty: "tags_to_remove audio (Some []) = tags_to_remove audio None"
  by (simp add: tags_to_remove_def)

lemma remove_metadata_empty_keep: "remove_metadata F p out (Some []) w = remove_metadata F p out None w"
  unfolding remove_metadata_def remove_metadata_try_def process_def tags_to_remove_empty ..

lemma delitem_absent:
  "tag \<notin> set (keys audio) \<Longrightarrow> delitem F tag audio w = (Inl (KeyError (quote tag)), emit (Call (DelItem tag)) w)"
  by (simp add: delitem_def)

lemma delitem_fault:
  "tag \<in> set (keys audio) \<Longrightarrow> F (DelItem tag) = Some m \<Longrightarrow>
   delitem F tag audio w = (Inl (OtherError m), emit (Call (DelItem tag)) w)"
  by (simp add: delitem_def)

lemma delitem_ok:
  "tag \<in> set (keys audio) \<Longrightarrow> F (DelItem tag) = None \<Longrightarrow>
   delitem F tag audio w = (Inr (filter (\<lambda>kv. fst kv \<noteq> tag) audio), emit (Call (DelItem tag)) w)"
  by (simp add: delitem_def)

lemma delitem_cases:
  obtains (absent) "tag \<notin> set (keys audio)"
       "delitem F tag audio w = (Inl (KeyError (quote tag)), emit (Call (DelItem tag)) w)"
  | (fault) m where "tag \<in> set (keys audio)" "F (DelItem tag) = Some m"
       "delitem F tag audio w = (Inl (OtherError m), emit (Call (DelItem tag)) w)"
  | (ok) "tag \<in> set (keys audio)" "F (DelItem tag) = None"
       "delitem F tag audio w = (Inr (filter (\<lambda>kv. fst kv \<noteq> tag) audio), emit (Call (DelItem tag)) w)"
  by (cases "tag \<in> set (keys audio)"; cases "F (DelItem tag)") (auto simp: delitem_def)

lemma delete_tags_result:
  "delete_tags F f tags audio w = (Inr audio', w') \<Longrightarrow>
   audio' = filter (\<lambda>kv. fst kv \<notin> set tags) audio"
proof (induction tags arbitrary: audio w)
  case Nil
  then show ?case by simp
next
  case (Cons tag rest)
  show ?case
  proof (cases rule: delitem_cases[of tag audio F w])
    case absent
    with Cons.prems have "delete_tags F f rest audio
        (logging WARNING (''Tag '' @ quote tag @ '' not found in '' @ f @ '', skipping.'') (emit (Call (DelItem tag)) w)) = (Inr audio', w')"
      by simp
    from Cons.IH[OF this] have "audio' = filter (\<lambda>kv. fst kv \<notin> set rest) audio" .
    also have "\<dots> = filter (\<lambda>kv. fst kv \<notin> set (tag # rest)) audio"
      using absent(1) by (auto simp: keys_def intro!: filter_cong)
    finally show ?thesis .
  next
    case (fault m)
    with Cons.prems show ?thesis by simp
  next
    case ok
    with Cons.prems have "delete_tags F f rest (filter (\<lambda>kv. fst kv \<noteq> tag) audio) (emit (Call (DelItem tag)) w) = (Inr audio', w')"
      by simp
    from Cons.IH[OF this] show ?thesis by (auto intro!: filter_cong)
  qed
qed

section \<open>The delete loop\<close>

lemma calls_append: "calls (xs @ ys) = calls xs @ calls ys"
  by (induction xs rule: calls.induct) simp_all

lemma emit_simps [simp]:
  "files (emit e w) = files w"
  "trace (emit e w) = trace w @ [e]"
  "handlers (emit e w) = handlers w"
  by (simp_all add: emit_def)

lemma logging_simps [simp]:
  "files (logging l m w) = files w"
  "trace (logging l m w) = trace w @ [Log l m]"
  "handlers (logging l m w) = handlers w"
  by (simp_all add: logging_def)

lemma emit_trace_update: "(emit e w)\<lparr>trace := trace (emit e w) @ evs\<rparr> = w\<lparr>trace := trace w @ e # evs\<rparr>"
  by (simp add: emit_def)

lemma logging_as_update: "logging l m w = w\<lparr>trace := trace w @ [Log l m]\<rparr>"
  by (simp add: logging_def emit_def)

lemma emit_as_update: "emit e w = w\<lparr>trace := trace w @ [e]\<rparr>"
  by (simp add: emit_def)

lemma delete_tags_absent:
  "tag \<notin> set (keys audio) \<Longrightarrow>
   delete_tags F f (tag # rest) audio w =
     delete_tags F f rest audio
       (logging WARNING (''Tag '' @ quote tag @ '' not found in '' @ f @ '', skipping.'')
          (emit (Call (DelItem tag)) w))"
  by (simp add: delitem_absent)

lemma delete_tags_fault:
  "tag \<in> set (keys audio) \<Longrightarrow> F (DelItem tag) = Some m \<Longrightarrow>
   delete_tags F f (tag # rest) audio w =
     (Inl (OtherError m),
      logging ERROR (''Error deleting tag '' @ quote tag @ '' from '' @ f @ '': '' @ m)
        (emit (Call (DelItem tag)) w))"
  by (simp add: delitem_fault)

lemma delete_tags_ok:
  "tag \<in> set (keys audio) \<Longrightarrow> F (DelItem tag) = None \<Longrightarrow>
   delete_tags F f (tag # rest) audio w =
     delete_tags F f rest (filter (\<lambda>kv. fst kv \<noteq> tag) audio) (emit (Call (DelItem tag)) w)"
  by (simp add: delitem_ok)

declare delete_tags.simps(2) [simp del]

lemma filter_absent:
  "tag \<notin> set (keys audio) \<Longrightarrow>
   filter (\<lambda>kv. fst kv \<notin> set (tag # rest)) audio = filter (\<lambda>kv. fst kv \<notin> set rest) audio"
  by (auto simp: keys_def intro!: filter_cong)

lemma filter_present:
  "filter (\<lambda>kv. fst kv \<notin> set rest) (filter (\<lambda>kv. fst kv \<noteq> tag) audio) =
   filter (\<lambda>kv. fst kv \<notin> set (tag # rest)) audio"
  by (auto intro!: filter_cong)

lemma keys_filter_neq:
  "set (keys (filter (\<lambda>kv. fst kv \<noteq> tag) audio)) = set (keys audio) - {tag}"
  by (auto simp: keys_def)

lemma keys_filter_notin:
  "set (keys (filter (\<lambda>kv. fst kv \<notin> A) audio)) = set (keys audio) - A"
  by (auto simp: keys_def)

lemma keys_filter_in:
  "set (keys (filter (\<lambda>kv. fst kv \<in> A) audio)) = set (keys audio) \<inter> A"
  by (auto simp: keys_def)

lemma logging_trace_update:
  "(logging l m w)\<lparr>trace := trace (logging l m w) @ evs\<rparr> = w\<lparr>trace := trace w @ Log l m # evs\<rparr>"
  by (simp add: logging_def emit_def)

lemma delete_tags_trace:
  "\<exists>evs. snd (delete_tags F f tags audio w) = w\<lparr>trace := trace w @ evs\<rparr>"
proof (induction tags arbitrary: audio w)
  case Nil
  show ?case by (intro exI[of _ "[]"]) simp
next
  case (Cons tag rest)
  show ?case
  proof (cases "tag \<in> set (keys audio)")
    case False
    let ?m = "''Tag '' @ quote tag @ '' not found in '' @ f @ '', skipping.''"
    let ?w1 = "logging WARNING ?m (emit (Call (DelItem tag)) w)"
    from Cons.IH[of audio ?w1] obtain evs where
      "snd (delete_tags F f rest audio ?w1) = ?w1\<lparr>trace := trace ?w1 @ evs\<rparr>"
      by blast
    then have "snd (delete_tags F f (tag # rest) audio w) =
        w\<lparr>trace := trace w @ Call (DelItem tag) # Log WARNING ?m # evs\<rparr>"
      unfolding delete_tags_absent[OF False] logging_trace_update emit_trace_update .
    then show ?thesis by blast
  next
    case True
    show ?thesis
    proof (cases "F (DelItem tag)")
      case None
      let ?w1 = "emit (Call (DelItem tag)) w"
      from Cons.IH[of "filter (\<lambda>kv. fst kv \<noteq> tag) audio" ?w1] obtain evs where
        "snd (delete_tags F f rest (filter (\<lambda>kv. fst kv \<noteq> tag) audio) ?w1) =
         ?w1\<lparr>trace := trace ?w1 @ evs\<rparr>"
        by blast
      then have "snd (delete_tags F f (tag # rest) audio w) =
          w\<lparr>trace := trace w @ Call (DelItem tag) # evs\<rparr>"
        unfolding delete_tags_ok[where F=F, OF True None] emit_trace_update .
      then show ?thesis by blast
    next
      case (Some m)
      have "snd (delete_tags F f (tag # rest) audio w) =
          w\<lparr>trace := trace w @ [Call (DelItem tag),
             Log ERROR (''Error deleting tag '' @ quote tag @ '' from '' @ f @ '': '' @ m)]\<rparr>"
        unfolding delete_tags_fault[where F=F, OF True Some] by (simp add: logging_def emit_def)
      then show ?thesis by blast
    qed
  qed
qed

lemma delete_tags_files: "files (snd (delete_tags F f tags audio w)) = files w"
  using delete_tags_trace[of F f tags audio w] by auto

lemma delete_tags_completed:
  "delete_tags F f tags audio w = (Inr audio', w') \<Longrightarrow>
   calls (trace w') = calls (trace w) @ map DelItem tags"
proof (induction tags arbitrary: audio w)
  case Nil
  then show ?case by simp
next
  case (Cons tag rest)
  show ?case
  proof (cases "tag \<in> set (keys audio)")
    case False
    with Cons.prems Cons.IH[of audio "logging WARNING (''Tag '' @ quote tag @ '' not found in '' @ f @ '', skipping.'')
          (emit (Call (DelItem tag)) w)"] show ?thesis
      by (simp add: delete_tags_absent calls_append)
  next
    case True
    show ?thesis
    proof (cases "F (DelItem tag)")
      case None
      with True Cons.prems Cons.IH[of "filter (\<lambda>kv. fst kv \<noteq> tag) audio" "emit (Call (DelItem tag)) w"]
      show ?thesis by (simp add: delete_tags_ok calls_append)
    next
      case (Some m)
      with True Cons.prems show ?thesis by (simp add: delete_tags_fault)
    qed
  qed
qed

lemma delete_tags_no_fault:
  "\<forall>t\<in>set tags. F (DelItem t) = None \<Longrightarrow>
   fst (delete_tags F f tags audio w) = Inr (filter (\<lambda>kv. fst kv \<notin> set tags) audio)"
proof (induction tags arbitrary: audio w)
  case Nil
  show ?case by simp
next
  case (Cons tag rest)
  then have nf: "\<forall>t\<in>set rest. F (DelItem t) = None" and t: "F (DelItem tag) = None"
    by simp_all
  note IH = Cons.IH[OF nf]
  show ?case
  proof (cases "tag \<in> set (keys audio)")
    case False
    show ?thesis
      unfolding delete_tags_absent[OF False] filter_absent[OF False] by (rule IH)
  next
    case True
    show ?thesis
      unfolding delete_tags_ok[where F=F, OF True t] filter_present[symmetric] by (rule IH)
  qed
qed

lemma delete_tags_pre:
  "\<forall>u\<in>set pre. F (DelItem u) = None \<Longrightarrow>
   \<exists>evs. calls evs = map DelItem pre \<and>
     delete_tags F f (pre @ rest) audio w =
       delete_tags F f rest (filter (\<lambda>kv. fst kv \<notin> set pre) audio) (w\<lparr>trace := trace w @ evs\<rparr>)"
proof (induction pre arbitrary: audio w)
  case Nil
  show ?case by (intro exI[of _ "[]"]) simp
next
  case (Cons u pre)
  then have nf: "\<forall>u\<in>set pre. F (DelItem u) = None" and u: "F (DelItem u) = None" by simp_all
  show ?case
  proof (cases "u \<in> set (keys audio)")
    case False
    let ?m = "''Tag '' @ quote u @ '' not found in '' @ f @ '', skipping.''"
    let ?w1 = "logging WARNING ?m (emit (Call (DelItem u)) w)"
    from Cons.IH[OF nf, of audio ?w1] obtain evs where
      e: "calls evs = map DelItem pre"
      "delete_tags F f (pre @ rest) audio ?w1 =
       delete_tags F f rest (filter (\<lambda>kv. fst kv \<notin> set pre) audio) (?w1\<lparr>trace := trace ?w1 @ evs\<rparr>)"
      by blast
    have "delete_tags F f ((u # pre) @ rest) audio w = delete_tags F f (pre @ rest) audio ?w1"
      by (simp add: delete_tags_absent[OF False])
    also note e(2)
    finally have "delete_tags F f ((u # pre) @ rest) audio w =
        delete_tags F f rest (filter (\<lambda>kv. fst kv \<notin> set (u # pre)) audio)
          (w\<lparr>trace := trace w @ Call (DelItem u) # Log WARNING ?m # evs\<rparr>)"
      unfolding filter_absent[OF False] logging_trace_update emit_trace_update .
    moreover have "calls (Call (DelItem u) # Log WARNING ?m # evs) = map DelItem (u # pre)"
      using e(1) by simp
    ultimately show ?thesis by blast
  next
    case True
    let ?w1 = "emit (Call (DelItem u)) w"
    from Cons.IH[OF nf, of "filter (\<lambda>kv. fst kv \<noteq> u) audio" ?w1] obtain evs where
      e: "calls evs = map DelItem pre"
      "delete_tags F f (pre @ rest) (filter (\<lambda>kv. fst kv \<noteq> u) audio) ?w1 =
       delete_tags F f rest (filter (\<lambda>kv. fst kv \<notin> set pre) (filter (\<lambda>kv. fst kv \<noteq> u) audio)) (?w1\<lparr>trace := trace ?w1 @ evs\<rparr>)"
      by blast
    have "delete_tags F f ((u # pre) @ rest) audio w =
        delete_tags F f (pre @ rest) (filter (\<lambda>kv. fst kv \<noteq> u) audio) ?w1"
      by (simp add: delete_tags_ok[where F=F, OF True u])
    also note e(2)
    finally have "delete_tags F f ((u # pre) @ rest) audio w =
        delete_tags F f rest (filter (\<lambda>kv. fst kv \<notin> set (u # pre)) audio)
          (w\<lparr>trace := trace w @ Call (DelItem u) # evs\<rparr>)"
      unfolding filter_present emit_trace_update .
    moreover have "calls (Call (DelItem u) # evs) = map DelItem (u # pre)"
      using e(1) by simp
    ultimately show ?thesis by blast
  qed
qed

lemma delete_tags_no_warning:
  "distinct tags \<Longrightarrow> set tags \<subseteq> set (keys audio) \<Longrightarrow>
   filter is_warning (trace (snd (delete_tags F f tags audio w))) = filter is_warning (trace w)"
proof (induction tags arbitrary: audio w)
  case Nil
  show ?case by simp
next
  case (Cons tag rest)
  then have tag: "tag \<in> set (keys audio)" and d: "distinct rest" and nin: "tag \<notin> set rest"
    and sub: "set rest \<subseteq> set (keys audio)" by simp_all
  show ?case
  proof (cases "F (DelItem tag)")
    case None
    have "set rest \<subseteq> set (keys (filter (\<lambda>kv. fst kv \<noteq> tag) audio))"
      using sub nin by (auto simp: keys_filter_neq)
    from Cons.IH[OF d this] tag None show ?thesis
      by (simp add: delete_tags_ok)
  next
    case (Some m)
    with tag show ?thesis by (simp add: delete_tags_fault)
  qed
qed

section \<open>Library calls, \<open>process\<close> and the trace\<close>

lemma extends_refl [simp]: "extends w w"
  by (simp add: extends_def)

lemma extends_trans: "extends w w1 \<Longrightarrow> extends w1 w2 \<Longrightarrow> extends w w2"
  by (auto simp: extends_def)

lemma extends_emit [simp]: "extends w (emit e w)"
  by (simp add: extends_def)

lemma extends_logging: "extends w w1 \<Longrightarrow> extends w (logging l m w1)"
  by (auto simp: extends_def)

lemma extends_files_update: "extends w w1 \<Longrightarrow> extends w (w1\<lparr>files := fs\<rparr>)"
  by (auto simp: extends_def)

lemma extends_after_emit: "extends (emit e w) w' \<Longrightarrow> \<exists>evs. trace w' = trace w @ e # evs"
  by (auto simp: extends_def)

lemma open_file_missing:
  "files w path = None \<Longrightarrow>
   open_file F c path w =
     (Inl (FileNotFoundError (''[Errno 2] No such file or directory: '' @ quote path)), emit (Call c) w)"
  by (simp add: open_file_def)

lemma open_file_fault:
  "files w path = Some f \<Longrightarrow> F c = Some m \<Longrightarrow>
   open_file F c path w = (Inl (OtherError m), emit (Call c) w)"
  by (simp add: open_file_def)

lemma open_file_ok:
  "files w path = Some f \<Longrightarrow> F c = None \<Longrightarrow> open_file F c path w = (Inr f, emit (Call c) w)"
  by (simp add: open_file_def)

lemma save_fault:
  "F (Save path) = Some m \<Longrightarrow> save F audio path w = (Inl (OtherError m), emit (Call (Save path)) w)"
  by (simp add: save_def)

lemma save_ok:
  "F (Save path) = None \<Longrightarrow>
   save F audio path w = (Inr (), (emit (Call (Save path)) w)\<lparr>files := (files w)(path \<mapsto> Some audio)\<rparr>)"
  by (simp add: save_def)

lemma process_tagged:
  "ft = ''mp3'' \<or> ft = ''flac'' \<Longrightarrow>
   process F ft audio p out k w =
     (case delete_tags F p (tags_to_remove audio k) audio w of
        (Inl e, w1) \<Rightarrow> (Inl e, w1)
      | (Inr audio1, w1) \<Rightarrow>
          (case F (Save (target p out)) of
             Some m \<Rightarrow> (Inl (OtherError m),
                 logging ERROR (''Error saving file '' @ target p out @ '': '' @ m) (emit (Call (Save (target p out))) w1))
           | None \<Rightarrow> (Inr (),
                 logging INFO (''Metadata removed from '' @ p @ '' and saved to '' @ target p out)
                   ((emit (Call (Save (target p out))) w1)\<lparr>files := (files w1)(target p out \<mapsto> Some audio1)\<rparr>))))"
  by (auto simp: process_def save_step_def target_def save_def Let_def split: prod.splits sum.splits option.splits)

lemma process_tagged_fail:
  assumes "ft = ''mp3'' \<or> ft = ''flac''"
    and "delete_tags F p (tags_to_remove audio k) audio w = (Inl e, w1)"
  shows "process F ft audio p out k w = (Inl e, w1)"
  using assms by (simp add: process_tagged)

lemma process_tagged_save_fault:
  assumes "ft = ''mp3'' \<or> ft = ''flac''"
    and "delete_tags F p (tags_to_remove audio k) audio w = (Inr audio1, w1)"
    and "F (Save (target p out)) = Some m"
  shows "process F ft audio p out k w =
     (Inl (OtherError m),
      logging ERROR (''Error saving file '' @ target p out @ '': '' @ m) (emit (Call (Save (target p out))) w1))"
  using assms by (simp add: process_tagged)

lemma process_tagged_ok:
  assumes "ft = ''mp3'' \<or> ft = ''flac''"
    and "delete_tags F p (tags_to_remove audio k) audio w = (Inr audio1, w1)"
    and "F (Save (target p out)) = None"
  shows "process F ft audio p out k w =
     (Inr (),
      logging INFO (''Metadata removed from '' @ p @ '' and saved to '' @ target p out)
        ((emit (Call (Save (target p out))) w1)\<lparr>files := (files w1)(target p out \<mapsto> Some audio1)\<rparr>))"
  using assms by (simp add: process_tagged)

lemma process_wav:
  "process F ''wav'' audio p out k w =
     (case remove_wav_id3 F p w of
        (Inl e, w1) \<Rightarrow> (Inl e, w1)
      | (Inr u, w1) \<Rightarrow> (Inr (), logging INFO (''ID3 metadata removed from '' @ p @ ''.'') w1))"
  by (simp add: process_def save_step_def Let_def split: prod.splits sum.splits)

lemma wav_id3_present:
  assumes "files w p = Some (Some id3)" "F (LoadID3 p) = None" "F (ID3Delete p) = None"
  shows "remove_wav_id3 F p w =
     (Inr (), w\<lparr>files := (files w)(p \<mapsto> None),
                trace := trace w @ [Call (LoadID3 p), Call (ID3Delete p), Log INFO (''ID3 tags removed from '' @ p)]\<rparr>)"
  using assms
  by (simp add: remove_wav_id3_def ID3_def ID3_delete_def open_file_ok[where f = "Some id3"] Let_def logging_def emit_def)

lemma wav_id3_absent:
  assumes "files w p = Some None" "F (LoadID3 p) = None"
  shows "remove_wav_id3 F p w =
     (Inr (), w\<lparr>trace := trace w @ [Call (LoadID3 p), Log INFO (''No ID3 tags found in '' @ p @ ''.'')]\<rparr>)"
  using assms
  by (simp add: remove_wav_id3_def ID3_def open_file_ok[where f = None] Let_def logging_def emit_def)

lemma remove_wav_id3_extends: "extends w (snd (remove_wav_id3 F p w))"
  by (auto simp: remove_wav_id3_def ID3_def ID3_delete_def open_file_def Let_def extends_def
      split: option.splits prod.splits sum.splits error.splits)

lemma delete_tags_extends: "extends w (snd (delete_tags F f tags audio w))"
  using delete_tags_trace[of F f tags audio w] by (auto simp: extends_def)

lemma process_extends: "extends w (snd (process F ft audio p out k w))"
proof -
  have d: "\<And>r w1. delete_tags F p (tags_to_remove audio k) audio w = (r, w1) \<Longrightarrow> extends w w1"
    using delete_tags_extends[of w F p "tags_to_remove audio k" audio] by simp
  have v: "\<And>r w1. remove_wav_id3 F p w = (r, w1) \<Longrightarrow> extends w w1"
    using remove_wav_id3_extends[of w F p] by simp
  show ?thesis
    by (auto simp: process_def save_step_def save_def Let_def
        intro!: extends_logging extends_files_update intro: extends_trans[OF d] extends_trans[OF v] d v
        split: prod.splits sum.splits option.splits)
qed

section \<open>Runs of \<open>remove_metadata\<close>\<close>

lemma try_mp3:
  assumes "endswith (lower p) ''.mp3''"
  shows "remove_metadata_try F p out k w =
     (case files w p of
        None \<Rightarrow> (Inl (FileNotFoundError (''[Errno 2] No such file or directory: '' @ quote p)), emit (Call (LoadMP3 p)) w)
      | Some f \<Rightarrow>
          (case F (LoadMP3 p) of
             Some m \<Rightarrow> (Inl (OtherError m), emit (Call (LoadMP3 p)) w)
           | None \<Rightarrow>
               (case f of
                  None \<Rightarrow> (Inr (), logging WARNING (''No ID3 header found in '' @ p @ ''.  Skipping metadata removal.'') (emit (Call (LoadMP3 p)) w))
                | Some audio \<Rightarrow> process F ''mp3'' audio p out k (emit (Call (LoadMP3 p)) w))))"
  using assms by (simp add: remove_metadata_try_def MP3_def open_file_def Let_def split: option.splits)

lemma try_flac:
  assumes "endswith (lower p) ''.flac''"
  shows "remove_metadata_try F p out k w =
     (case files w p of
        None \<Rightarrow> (Inl (FileNotFoundError (''[Errno 2] No such file or directory: '' @ quote p)), emit (Call (LoadFLAC p)) w)
      | Some f \<Rightarrow>
          (case F (LoadFLAC p) of
             Some m \<Rightarrow> (Inl (OtherError m), emit (Call (LoadFLAC p)) w)
           | None \<Rightarrow> process F ''flac'' (tags_of f) p out k (emit (Call (LoadFLAC p)) w)))"
  using assms flac_not_mp3[OF assms]
  by (simp add: remove_metadata_try_def FLAC_def open_file_def Let_def tags_of_def split: option.splits)

lemma try_wav:
  assumes "endswith (lower p) ''.wav''"
  shows "remove_metadata_try F p out k w =
     (case files w p of
        None \<Rightarrow> (Inl (FileNotFoundError (''[Errno 2] No such file or directory: '' @ quote p)), emit (Call (LoadWAVE p)) w)
      | Some f \<Rightarrow>
          (case F (LoadWAVE p) of
             Some m \<Rightarrow> (Inl (OtherError m), emit (Call (LoadWAVE p)) w)
           | None \<Rightarrow> process F ''wav'' [] p out k (emit (Call (LoadWAVE p)) w)))"
  using assms wav_not_mp3[OF assms] wav_not_flac[OF assms]
  by (simp add: remove_metadata_try_def WAVE_def open_file_def Let_def split: option.splits)

lemma try_unsupported:
  assumes "\<not> endswith (lower p) ''.mp3''" "\<not> endswith (lower p) ''.flac''" "\<not> endswith (lower p) ''.wav''"
  shows "remove_metadata_try F p out k w =
     (Inl (ValueError ''Unsupported file format. Supported formats: MP3, FLAC, WAV''), w)"
  using assms by (simp add: remove_metadata_try_def)

lemma rm_Inr_iff:
  "(remove_metadata F p out k w = (Inr u, w')) = (remove_metadata_try F p out k w = (Inr u, w'))"
  by (auto simp: remove_metadata_def split: prod.splits sum.splits error.splits)

lemma rm_Other:
  "remove_metadata_try F p out k w = (Inl (OtherError m), w1) \<Longrightarrow>
   remove_metadata F p out k w =
     (Inl (OtherError m), logging ERROR (''An unexpected error occurred: '' @ m) w1)"
  by (simp add: remove_metadata_def)

lemma rm_Value:
  "remove_metadata_try F p out k w = (Inl (ValueError m), w1) \<Longrightarrow>
   remove_metadata F p out k w = (Inl (ValueError m), logging ERROR m w1)"
  by (simp add: remove_metadata_def)

lemma rm_fst: "fst (remove_metadata F p out k w) = fst (remove_metadata_try F p out k w)"
  by (auto simp: remove_metadata_def split: prod.splits sum.splits error.splits)

lemma rm_snd:
  "\<exists>evs. snd (remove_metadata F p out k w) =
     (snd (remove_metadata_try F p out k w))\<lparr>trace := trace (snd (remove_metadata_try F p out k w)) @ evs\<rparr>
     \<and> filter is_warning evs = [] \<and> calls evs = []"
proof (cases "remove_metadata_try F p out k w")
  case (Pair r w1)
  show ?thesis
  proof (cases r)
    case (Inr u)
    with Pair show ?thesis by (intro exI[of _ "[]"]) (simp add: remove_metadata_def)
  next
    case (Inl e)
    then obtain m where "snd (remove_metadata F p out k w) = logging ERROR m w1"
      using Pair by (cases e) (simp_all add: remove_metadata_def)
    with Pair show ?thesis
      by (intro exI[of _ "[Log ERROR m]"]) (simp add: logging_def emit_def)
  qed
qed

lemma rm_extends: "extends (snd (remove_metadata_try F p out k w)) (snd (remove_metadata F p out k w))"
  using rm_snd[of F p out k w] by (auto simp: extends_def)

lemma filter_keep:
  "filter (\<lambda>kv. fst kv \<notin> set (tags_to_remove audio k)) audio =
   filter (\<lambda>kv. fst kv \<in> set (kept k)) audio"
  by (rule filter_cong) (auto simp: tags_to_remove_def kept_def keys_def split: option.splits)

lemma tags_to_remove_subset: "set (tags_to_remove audio k) \<subseteq> set (keys audio)"
  by (auto simp: tags_to_remove_def split: option.splits)

lemma tags_to_remove_distinct: "distinct (keys audio) \<Longrightarrow> distinct (tags_to_remove audio k)"
  by (auto simp: tags_to_remove_def split: option.splits)

lemma try_tagged:
  assumes tagged: "endswith (lower p) ''.mp3'' \<or> endswith (lower p) ''.flac''"
    and ex: "files w p = Some f"
    and hdr: "endswith (lower p) ''.mp3'' \<longrightarrow> f \<noteq> None"
  obtains ld ft where
    "ld = (if endswith (lower p) ''.mp3'' then LoadMP3 p else LoadFLAC p)"
    "ft = ''mp3'' \<or> ft = ''flac''"
    "remove_metadata_try F p out k w =
       (case F ld of
          Some m \<Rightarrow> (Inl (OtherError m), emit (Call ld) w)
        | None \<Rightarrow> process F ft (tags_of f) p out k (emit (Call ld) w))"
proof (cases "endswith (lower p) ''.mp3''")
  case True
  with hdr obtain audio where "f = Some audio" by auto
  with True ex have "remove_metadata_try F p out k w =
       (case F (LoadMP3 p) of
          Some m \<Rightarrow> (Inl (OtherError m), emit (Call (LoadMP3 p)) w)
        | None \<Rightarrow> process F ''mp3'' (tags_of f) p out k (emit (Call (LoadMP3 p)) w))"
    by (simp add: try_mp3 tags_of_def split: option.splits)
  with True show ?thesis by (intro that[of "LoadMP3 p" "''mp3''"]) simp_all
next
  case False
  with tagged have fl: "endswith (lower p) ''.flac''" by simp
  from ex have "remove_metadata_try F p out k w =
       (case F (LoadFLAC p) of
          Some m \<Rightarrow> (Inl (OtherError m), emit (Call (LoadFLAC p)) w)
        | None \<Rightarrow> process F ''flac'' (tags_of f) p out k (emit (Call (LoadFLAC p)) w))"
    by (simp add: try_flac[OF fl])
  with False show ?thesis by (intro that[of "LoadFLAC p" "''flac''"]) simp_all
qed

lemma completed_run:
  assumes tagged: "endswith (lower p) ''.mp3'' \<or> endswith (lower p) ''.flac''"
    and ex: "files w p = Some f"
    and hdr: "endswith (lower p) ''.mp3'' \<longrightarrow> f \<noteq> None"
    and run: "remove_metadata F p out k w = (Inr u, w')"
  shows "files w' = (files w)(target p out \<mapsto> Some (filter (\<lambda>kv. fst kv \<in> set (kept k)) (tags_of f)))"
    and "calls (trace w') = calls (trace w) @
           (if endswith (lower p) ''.mp3'' then LoadMP3 p else LoadFLAC p) #
           map DelItem (tags_to_remove (tags_of f) k) @ [Save (target p out)]"
proof -
  from run have t: "remove_metadata_try F p out k w = (Inr u, w')" by (simp add: rm_Inr_iff)
  from try_tagged[OF tagged ex hdr, of F out k] obtain ld ft where
    ld: "ld = (if endswith (lower p) ''.mp3'' then LoadMP3 p else LoadFLAC p)"
    and ft: "ft = ''mp3'' \<or> ft = ''flac''"
    and eq: "remove_metadata_try F p out k w =
       (case F ld of
          Some m \<Rightarrow> (Inl (OtherError m), emit (Call ld) w)
        | None \<Rightarrow> process F ft (tags_of f) p out k (emit (Call ld) w))"
    by blast
  let ?w0 = "emit (Call ld) w"
  from t eq have nold: "F ld = None" and pr: "process F ft (tags_of f) p out k ?w0 = (Inr u, w')"
    by (auto split: option.splits)
  obtain r w1 where d: "delete_tags F p (tags_to_remove (tags_of f) k) (tags_of f) ?w0 = (r, w1)"
    by (cases "delete_tags F p (tags_to_remove (tags_of f) k) (tags_of f) ?w0") blast
  from pr d ft obtain a1 where r: "r = Inr a1"
    by (cases r) (auto simp: process_tagged)
  from pr d r ft have sv: "F (Save (target p out)) = None"
    by (cases "F (Save (target p out))") (auto simp: process_tagged)
  from pr have w': "w' = logging INFO (''Metadata removed from '' @ p @ '' and saved to '' @ target p out)
        ((emit (Call (Save (target p out))) w1)\<lparr>files := (files w1)(target p out \<mapsto> Some a1)\<rparr>)"
    unfolding process_tagged_ok[OF ft d[unfolded r] sv] by simp
  have a1: "a1 = filter (\<lambda>kv. fst kv \<in> set (kept k)) (tags_of f)"
    using delete_tags_result[OF d[unfolded r]] by (simp add: filter_keep)
  have fw1: "files w1 = files w"
    using delete_tags_files[of F p "tags_to_remove (tags_of f) k" "tags_of f" ?w0] d by simp
  have cw1: "calls (trace w1) = calls (trace w) @ ld # map DelItem (tags_to_remove (tags_of f) k)"
    using delete_tags_completed[OF d[unfolded r]] by (simp add: calls_append)
  show "files w' = (files w)(target p out \<mapsto> Some (filter (\<lambda>kv. fst kv \<in> set (kept k)) (tags_of f)))"
    by (simp add: w' a1 fw1)
  show "calls (trace w') = calls (trace w) @
           (if endswith (lower p) ''.mp3'' then LoadMP3 p else LoadFLAC p) #
           map DelItem (tags_to_remove (tags_of f) k) @ [Save (target p out)]"
    using cw1 by (simp add: w' calls_append ld)
qed

lemma run_completes:
  assumes tagged: "endswith (lower p) ''.mp3'' \<or> endswith (lower p) ''.flac''"
    and ex: "files w p = Some f"
    and hdr: "endswith (lower p) ''.mp3'' \<longrightarrow> f \<noteq> None"
    and nold: "F (LoadMP3 p) = None" "F (LoadFLAC p) = None"
    and nodel: "\<forall>t\<in>set (tags_to_remove (tags_of f) k). F (DelItem t) = None"
    and nosave: "F (Save (target p out)) = None"
  shows "fst (remove_metadata F p out k w) = Inr ()"
proof -
  from try_tagged[OF tagged ex hdr, of F out k] obtain ld ft where
    ld: "ld = (if endswith (lower p) ''.mp3'' then LoadMP3 p else LoadFLAC p)"
    and ft: "ft = ''mp3'' \<or> ft = ''flac''"
    and eq: "remove_metadata_try F p out k w =
       (case F ld of
          Some m \<Rightarrow> (Inl (OtherError m), emit (Call ld) w)
        | None \<Rightarrow> process F ft (tags_of f) p out k (emit (Call ld) w))"
    by blast
  let ?w0 = "emit (Call ld) w"
  from nold ld have "F ld = None" by simp
  with eq have eq': "remove_metadata_try F p out k w = process F ft (tags_of f) p out k ?w0" by simp
  obtain r w1 where d: "delete_tags F p (tags_to_remove (tags_of f) k) (tags_of f) ?w0 = (r, w1)"
    by (cases "delete_tags F p (tags_to_remove (tags_of f) k) (tags_of f) ?w0") blast
  from delete_tags_no_fault[OF nodel, of p "tags_of f" ?w0] d obtain a1 where r: "r = Inr a1" by simp
  show ?thesis
    unfolding rm_fst eq' process_tagged_ok[OF ft d[unfolded r] nosave] by simp
qed

lemma main_no_log_file:
  assumes "log_file a = None \<or> log_file a = Some []"
  shows "main F a w = report (remove_metadata F (input_file a) (output_file a) (keep a) w)"
proof (cases "keep a")
  case None
  with assms show ?thesis by (auto simp: main_def attach_log_file_def)
next
  case (Some ks)
  with assms show ?thesis
    by (cases "ks = []") (auto simp: main_def attach_log_file_def remove_metadata_empty_keep)
qed

lemma attach_log_file_opened:
  assumes "log_file a = Some lf" "lf \<noteq> []" "F (OpenLog lf) = None"
  shows "attach_log_file F a w =
     (Inr (), w\<lparr>files := (case files w lf of None \<Rightarrow> (files w)(lf \<mapsto> None) | Some f \<Rightarrow> files w),
                trace := trace w @ [Call (OpenLog lf)],
                handlers := handlers w @ [lf]\<rparr>)"
  using assms
  by (simp add: attach_log_file_def FileHandler_def addHandler_def emit_def Let_def split: option.splits)

lemma main_log_file_opened:
  assumes "log_file a = Some lf" "lf \<noteq> []" "F (OpenLog lf) = None"
  shows "main F a w =
     report (remove_metadata F (input_file a) (output_file a) (keep a)
       (w\<lparr>files := (case files w lf of None \<Rightarrow> (files w)(lf \<mapsto> None) | Some f \<Rightarrow> files w),
          trace := trace w @ [Call (OpenLog lf)],
          handlers := handlers w @ [lf]\<rparr>))"
proof (cases "keep a")
  case None
  then show ?thesis by (simp add: main_def attach_log_file_opened[where F = F, OF assms])
next
  case (Some ks)
  then show ?thesis
    by (cases "ks = []")
      (simp_all add: main_def attach_log_file_opened[where F = F, OF assms] remove_metadata_empty_keep)
qed

lemma main_log_file_unopenable:
  assumes "log_file a = Some lf" "lf \<noteq> []" "F (OpenLog lf) = Some m"
  shows "main F a w = (1, [], w\<lparr>trace := trace w @ [Call (OpenLog lf)]\<rparr>)"
  using assms
  by (simp add: main_def attach_log_file_def FileHandler_def emit_def Let_def)

lemma try_first_call_mp3:
  "endswith (lower p) ''.mp3'' \<Longrightarrow>
   extends (emit (Call (LoadMP3 p)) w) (snd (remove_metadata_try F p out k w))"
  by (auto simp: try_mp3 split: option.splits intro: process_extends extends_logging)

lemma try_first_call_flac:
  "endswith (lower p) ''.flac'' \<Longrightarrow>
   extends (emit (Call (LoadFLAC p)) w) (snd (remove_metadata_try F p out k w))"
  by (auto simp: try_flac split: option.splits intro: process_extends)

lemma try_first_call_wav:
  "endswith (lower p) ''.wav'' \<Longrightarrow>
   extends (emit (Call (LoadWAVE p)) w) (snd (remove_metadata_try F p out k w))"
  by (auto simp: try_wav split: option.splits intro: process_extends)

lemma rm_cong:
  "remove_metadata_try F p out k w = remove_metadata_try F p out' k' w \<Longrightarrow>
   remove_metadata F p out k w = remove_metadata F p out' k' w"
  by (simp add: remove_metadata_def)

lemma wav_run_present:
  assumes wav: "endswith (lower p) ''.wav''"
    and "files w p = Some (Some id3)"
    and "F (LoadWAVE p) = None" "F (LoadID3 p) = None" "F (ID3Delete p) = None"
  shows "remove_metadata F p out k w =
     (Inr (), w\<lparr>files := (files w)(p \<mapsto> None),
                trace := trace w @ [Call (LoadWAVE p), Call (LoadID3 p), Call (ID3Delete p),
                  Log INFO (''ID3 tags removed from '' @ p),
                  Log INFO (''ID3 metadata removed from '' @ p @ ''.'')]\<rparr>)"
proof -
  have "remove_metadata_try F p out k w =
     (Inr (), w\<lparr>files := (files w)(p \<mapsto> None),
                trace := trace w @ [Call (LoadWAVE p), Call (LoadID3 p), Call (ID3Delete p),
                  Log INFO (''ID3 tags removed from '' @ p),
                  Log INFO (''ID3 metadata removed from '' @ p @ ''.'')]\<rparr>)"
  proof -
    have "files (emit (Call (LoadWAVE p)) w) p = Some (Some id3)" using assms(2) by simp
    from wav_id3_present[OF this, of F] assms(2-) show ?thesis
      by (simp add: try_wav[OF wav] process_wav logging_def emit_def)
  qed
  then show ?thesis by (simp add: rm_Inr_iff)
qed

lemma wav_run_absent:
  assumes wav: "endswith (lower p) ''.wav''"
    and "files w p = Some None"
    and "F (LoadWAVE p) = None" "F (LoadID3 p) = None"
  shows "remove_metadata F p out k w =
     (Inr (), w\<lparr>trace := trace w @ [Call (LoadWAVE p), Call (LoadID3 p),
                  Log INFO (''No ID3 tags found in '' @ p @ ''.''),
                  Log INFO (''ID3 metadata removed from '' @ p @ ''.'')]\<rparr>)"
proof -
  have "remove_metadata_try F p out k w =
     (Inr (), w\<lparr>trace := trace w @ [Call (LoadWAVE p), Call (LoadID3 p),
                  Log INFO (''No ID3 tags found in '' @ p @ ''.''),
                  Log INFO (''ID3 metadata removed from '' @ p @ ''.'')]\<rparr>)"
    using assms(2-)
    by (simp add: try_wav[OF wav] process_wav wav_id3_absent logging_def emit_def)
  then show ?thesis by (simp add: rm_Inr_iff)
qed

lemma mp3_noheader_run:
  assumes "endswith (lower p) ''.mp3''" "files w p = Some None" "F (LoadMP3 p) = None"
  shows "remove_metadata F p out k w =
     (Inr (), w\<lparr>trace := trace w @ [Call (LoadMP3 p),
        Log WARNING (''No ID3 header found in '' @ p @ ''.  Skipping metadata removal.'')]\<rparr>)"
proof -
  have "remove_metadata_try F p out k w =
     (Inr (), w\<lparr>trace := trace w @ [Call (LoadMP3 p),
        Log WARNING (''No ID3 header found in '' @ p @ ''.  Skipping metadata removal.'')]\<rparr>)"
    using assms by (simp add: try_mp3 logging_def emit_def)
  then show ?thesis by (simp add: rm_Inr_iff)
qed

lemma process_tagged_warnings:
  "ft = ''mp3'' \<or> ft = ''flac'' \<Longrightarrow>
   filter is_warning (trace (snd (process F ft audio p out k w))) =
   filter is_warning (trace (snd (delete_tags F p (tags_to_remove audio k) audio w)))"
  by (auto simp: process_tagged split: prod.splits sum.splits option.splits)

lemma delete_tags_Inl:
  "delete_tags F f tags audio w = (Inl e, w') \<Longrightarrow>
   \<exists>t\<in>set tags. \<exists>m. F (DelItem t) = Some m \<and> e = OtherError m"
proof (induction tags arbitrary: audio w)
  case Nil
  then show ?case by simp
next
  case (Cons tag rest)
  show ?case
  proof (cases "tag \<in> set (keys audio)")
    case False
    with Cons.prems Cons.IH[of audio] show ?thesis
      by (auto simp: delete_tags_absent)
  next
    case True
    show ?thesis
    proof (cases "F (DelItem tag)")
      case None
      with True Cons.prems Cons.IH[of "filter (\<lambda>kv. fst kv \<noteq> tag) audio"] show ?thesis
        by (auto simp: delete_tags_ok)
    next
      case (Some m)
      with True Cons.prems show ?thesis by (simp add: delete_tags_fault)
    qed
  qed
qed

lemma delete_tags_all_absent:
  "\<forall>t\<in>set tags. t \<notin> set (keys audio) \<Longrightarrow>
   delete_tags F f tags audio w =
     (Inr audio, w\<lparr>trace := trace w @
        concat (map (\<lambda>t. [Call (DelItem t),
           Log WARNING (''Tag '' @ quote t @ '' not found in '' @ f @ '', skipping.'')]) tags)\<rparr>)"
proof (induction tags arbitrary: w)
  case Nil
  show ?case by simp
next
  case (Cons tag rest)
  then have a: "tag \<notin> set (keys audio)" and r: "\<forall>t\<in>set rest. t \<notin> set (keys audio)" by simp_all
  show ?case
    unfolding delete_tags_absent[OF a] Cons.IH[OF r]
    by (simp add: logging_def emit_def)
qed

lemma wav_never_saves:
  assumes wav: "endswith (lower p) ''.wav''"
  shows "filter is_save (calls (trace (snd (remove_metadata F p out k w)))) = filter is_save (calls (trace w))"
proof -
  have a: "filter is_save (calls (trace (snd (remove_wav_id3 F p w1)))) = filter is_save (calls (trace w1))" for w1
    by (auto simp: remove_wav_id3_def ID3_def ID3_delete_def open_file_def Let_def calls_append
        split: option.splits prod.splits sum.splits error.splits)
  have b: "filter is_save (calls (trace (snd (process F ''wav'' [] p out k w1)))) = filter is_save (calls (trace w1))" for w1
    using a[of w1] by (cases "remove_wav_id3 F p w1") (auto simp: process_wav calls_append split: sum.splits)
  have c: "filter is_save (calls (trace (snd (remove_metadata_try F p out k w)))) = filter is_save (calls (trace w))"
    using b[of "emit (Call (LoadWAVE p)) w"] by (auto simp: try_wav[OF wav] calls_append split: option.splits)
  from rm_snd[of F p out k w] obtain evs where
    "snd (remove_metadata F p out k w) =
       (snd (remove_metadata_try F p out k w))\<lparr>trace := trace (snd (remove_metadata_try F p out k w)) @ evs\<rparr>"
    and "calls evs = []"
    by blast
  with c show ?thesis by (simp add: calls_append)
qed

section \<open>The claims\<close>

text \<open>
  Claim C10. For every MP3 or FLAC file, calling \<open>remove_metadata\<close> with the empty
  list as keep-list behaves exactly as calling it with no keep-list, because the removal
  logic and the dispatch in \<open>main\<close> test the keep-list for truthiness; and every
  tag is deleted: when no library call fails the run completes, it calls the deletion
  of every key of the container, and it saves the empty container.
\<close>

theorem empty_keep_list_is_no_keep_list:
  "remove_metadata F p out (Some []) w = remove_metadata F p out None w
   \<and> main F (a\<lparr>keep := Some []\<rparr>) w = main F (a\<lparr>keep := None\<rparr>) w
   \<and> tags_to_remove audio (Some []) = keys audio
   \<and> tags_to_remove audio None = keys audio
   \<and> ((endswith (lower p) ''.mp3'' \<or> endswith (lower p) ''.flac'') \<and> files w p = Some f
        \<and> (endswith (lower p) ''.mp3'' \<longrightarrow> f \<noteq> None)
        \<and> F (LoadMP3 p) = None \<and> F (LoadFLAC p) = None
        \<and> (\<forall>t\<in>set (keys (tags_of f)). F (DelItem t) = None)
        \<and> F (Save (target p out)) = None \<longrightarrow>
        (\<exists>w'. remove_metadata F p out (Some []) w = (Inr (), w')
           \<and> remove_metadata F p out None w = (Inr (), w')
           \<and> files w' = (files w)(target p out \<mapsto> Some [])
           \<and> calls (trace w') = calls (trace w) @
                (if endswith (lower p) ''.mp3'' then LoadMP3 p else LoadFLAC p) #
                map DelItem (keys (tags_of f)) @ [Save (target p out)]))"
proof -
  have eq: "remove_metadata F p out (Some []) w = remove_metadata F p out None w"
    unfolding remove_metadata_def remove_metadata_try_def process_def tags_to_remove_empty ..
  have al: "attach_log_file F (a\<lparr>keep := x\<rparr>) w = attach_log_file F a w" for x
    by (simp add: attach_log_file_def)
  have m: "main F (a\<lparr>keep := Some []\<rparr>) w = main F (a\<lparr>keep := None\<rparr>) w"
    by (cases "attach_log_file F a w") (auto simp: main_def al split: sum.splits)
  have t: "tags_to_remove audio (Some []) = keys audio" "tags_to_remove audio None = keys audio" for audio
    by (simp_all add: tags_to_remove_def)
  have d: "(endswith (lower p) ''.mp3'' \<or> endswith (lower p) ''.flac'') \<and> files w p = Some f
        \<and> (endswith (lower p) ''.mp3'' \<longrightarrow> f \<noteq> None)
        \<and> F (LoadMP3 p) = None \<and> F (LoadFLAC p) = None
        \<and> (\<forall>t\<in>set (keys (tags_of f)). F (DelItem t) = None)
        \<and> F (Save (target p out)) = None \<longrightarrow>
        (\<exists>w'. remove_metadata F p out (Some []) w = (Inr (), w')
           \<and> remove_metadata F p out None w = (Inr (), w')
           \<and> files w' = (files w)(target p out \<mapsto> Some [])
           \<and> calls (trace w') = calls (trace w) @
                (if endswith (lower p) ''.mp3'' then LoadMP3 p else LoadFLAC p) #
                map DelItem (keys (tags_of f)) @ [Save (target p out)])"
  proof
    assume h: "(endswith (lower p) ''.mp3'' \<or> endswith (lower p) ''.flac'') \<and> files w p = Some f
        \<and> (endswith (lower p) ''.mp3'' \<longrightarrow> f \<noteq> None)
        \<and> F (LoadMP3 p) = None \<and> F (LoadFLAC p) = None
        \<and> (\<forall>t\<in>set (keys (tags_of f)). F (DelItem t) = None)
        \<and> F (Save (target p out)) = None"
    then have h1: "endswith (lower p) ''.mp3'' \<or> endswith (lower p) ''.flac''"
      and h2: "files w p = Some f" and h3: "endswith (lower p) ''.mp3'' \<longrightarrow> f \<noteq> None"
      and h4: "F (LoadMP3 p) = None" "F (LoadFLAC p) = None"
      and h5: "\<forall>t\<in>set (tags_to_remove (tags_of f) (Some [])). F (DelItem t) = None"
      and h6: "F (Save (target p out)) = None"
      by (simp_all add: t)
    let ?r = "remove_metadata F p out (Some []) w"
    have "fst ?r = Inr ()"
      by (rule run_completes[where F = F, OF h1 h2 h3 h4 h5 h6])
    then have r: "?r = (Inr (), snd ?r)" by (metis prod.collapse)
    from completed_run[OF h1 h2 h3 r]
    have "files (snd ?r) = (files w)(target p out \<mapsto> Some [])"
      and "calls (trace (snd ?r)) = calls (trace w) @
                (if endswith (lower p) ''.mp3'' then LoadMP3 p else LoadFLAC p) #
                map DelItem (keys (tags_of f)) @ [Save (target p out)]"
      by (simp_all add: kept_def t)
    with r eq show "\<exists>w'. remove_metadata F p out (Some []) w = (Inr (), w')
           \<and> remove_metadata F p out None w = (Inr (), w')
           \<and> files w' = (files w)(target p out \<mapsto> Some [])
           \<and> calls (trace w') = calls (trace w) @
                (if endswith (lower p) ''.mp3'' then LoadMP3 p else LoadFLAC p) #
                map DelItem (keys (tags_of f)) @ [Save (target p out)]"
      by metis
  qed
  from eq m t d show ?thesis by blast
qed

theorem empty_keep_list_is_no_keep_list_witness:
  "endswith (lower ''song.mp3'') ''.mp3''
   \<and> (\<exists>w'. remove_metadata (\<lambda>c. None) ''song.mp3'' None (Some [])
          \<lparr>files = [''song.mp3'' \<mapsto> Some [(''title'', ''T''), (''artist'', ''A'')]], trace = [], handlers = []\<rparr> = (Inr (), w')
        \<and> files w' = [''song.mp3'' \<mapsto> Some []]
        \<and> calls (trace w') = [LoadMP3 ''song.mp3'', DelItem ''title'', DelItem ''artist'', Save ''song.mp3''])"
proof -
  let ?f = "Some [(''title'', ''T''), (''artist'', ''A'')]"
  let ?w = "\<lparr>files = [''song.mp3'' \<mapsto> ?f], trace = [], handlers = []\<rparr>"
  have h: "endswith (lower ''song.mp3'') ''.mp3''"
    by (simp add: endswith_def lower_def lower_char_def)
  then have "(endswith (lower ''song.mp3'') ''.mp3'' \<or> endswith (lower ''song.mp3'') ''.flac'')
        \<and> files ?w ''song.mp3'' = Some ?f
        \<and> (endswith (lower ''song.mp3'') ''.mp3'' \<longrightarrow> ?f \<noteq> None)
        \<and> (\<lambda>c. None :: string option) (LoadMP3 ''song.mp3'') = None
        \<and> (\<lambda>c. None :: string option) (LoadFLAC ''song.mp3'') = None
        \<and> (\<forall>t\<in>set (keys (tags_of ?f)). (\<lambda>c. None :: string option) (DelItem t) = None)
        \<and> (\<lambda>c. None :: string option) (Save (target ''song.mp3'' None)) = None"
    by simp
  from mp[OF conjunct2[OF conjunct2[OF conjunct2[OF conjunct2[OF
      empty_keep_list_is_no_keep_list[of "\<lambda>c. None" "''song.mp3''" None ?w _ _ ?f]]]]] this]
  obtain w' where r: "remove_metadata (\<lambda>c. None) ''song.mp3'' None (Some []) ?w = (Inr (), w')"
    and f: "files w' = (files ?w)(target ''song.mp3'' None \<mapsto> Some [])"
    and c: "calls (trace w') = calls (trace ?w) @
                (if endswith (lower ''song.mp3'') ''.mp3'' then LoadMP3 ''song.mp3'' else LoadFLAC ''song.mp3'') #
                map DelItem (keys (tags_of ?f)) @ [Save (target ''song.mp3'' None)]"
    by blast
  from f have f': "files w' = [''song.mp3'' \<mapsto> Some []]" by (simp add: target_def)
  from c h have c': "calls (trace w') = [LoadMP3 ''song.mp3'', DelItem ''title'', DelItem ''artist'', Save ''song.mp3'']"
    by (simp add: target_def tags_of_def keys_def)
  from h r f' c' show ?thesis by blast
qed



text \<open>
  Claim C2. The format is decided by the suffix of the lower-cased path alone: the first
  thing a run does on a \<open>.mp3\<close>, \<open>.flac\<close> or \<open>.wav\<close> path is to call the loader of
  that format. On any other path \<open>remove_metadata\<close> raises \<open>ValueError\<close> with the message
  "Unsupported file format. Supported formats: MP3, FLAC, WAV", having called nothing and
  changed no file, and \<open>main\<close> exits with status 1 whatever its other arguments are:
  with no log file, with a log file that is opened (which the handler creates when it is
  missing, the only change to the files), and with a log file that cannot be opened.
\<close>

theorem format_is_decided_by_suffix:
  "(endswith (lower p) ''.mp3'' \<longrightarrow>
      (\<exists>evs. trace (snd (remove_metadata F p out k w)) = trace w @ Call (LoadMP3 p) # evs))
   \<and> (endswith (lower p) ''.flac'' \<longrightarrow>
      (\<exists>evs. trace (snd (remove_metadata F p out k w)) = trace w @ Call (LoadFLAC p) # evs))
   \<and> (endswith (lower p) ''.wav'' \<longrightarrow>
      (\<exists>evs. trace (snd (remove_metadata F p out k w)) = trace w @ Call (LoadWAVE p) # evs))
   \<and> (\<not> endswith (lower p) ''.mp3'' \<and> \<not> endswith (lower p) ''.flac'' \<and> \<not> endswith (lower p) ''.wav'' \<longrightarrow>
        remove_metadata F p out k w =
          (Inl (ValueError ''Unsupported file format. Supported formats: MP3, FLAC, WAV''),
           w\<lparr>trace := trace w @ [Log ERROR ''Unsupported file format. Supported formats: MP3, FLAC, WAV'']\<rparr>)
        \<and> (input_file a = p \<longrightarrow>
             fst (main F a w) = 1
             \<and> (log_file a = None \<or> log_file a = Some [] \<longrightarrow>
                  main F a w =
                    (1, [''Error: Unsupported file format. Supported formats: MP3, FLAC, WAV''],
                     w\<lparr>trace := trace w @ [Log ERROR ''Unsupported file format. Supported formats: MP3, FLAC, WAV'']\<rparr>))
             \<and> (\<forall>lf. log_file a = Some lf \<and> lf \<noteq> [] \<and> F (OpenLog lf) = None \<longrightarrow>
                  main F a w =
                    (1, [''Error: Unsupported file format. Supported formats: MP3, FLAC, WAV''],
                     w\<lparr>files := (case files w lf of None \<Rightarrow> (files w)(lf \<mapsto> None) | Some f \<Rightarrow> files w),
                        trace := trace w @ [Call (OpenLog lf),
                          Log ERROR ''Unsupported file format. Supported formats: MP3, FLAC, WAV''],
                        handlers := handlers w @ [lf]\<rparr>))
             \<and> (\<forall>lf m. log_file a = Some lf \<and> lf \<noteq> [] \<and> F (OpenLog lf) = Some m \<longrightarrow>
                  main F a w = (1, [], w\<lparr>trace := trace w @ [Call (OpenLog lf)]\<rparr>))))"
proof (intro conjI impI allI)
  assume "endswith (lower p) ''.mp3''"
  from extends_trans[OF try_first_call_mp3[OF this] rm_extends]
  show "\<exists>evs. trace (snd (remove_metadata F p out k w)) = trace w @ Call (LoadMP3 p) # evs"
    by (rule extends_after_emit)
next
  assume "endswith (lower p) ''.flac''"
  from extends_trans[OF try_first_call_flac[OF this] rm_extends]
  show "\<exists>evs. trace (snd (remove_metadata F p out k w)) = trace w @ Call (LoadFLAC p) # evs"
    by (rule extends_after_emit)
next
  assume "endswith (lower p) ''.wav''"
  from extends_trans[OF try_first_call_wav[OF this] rm_extends]
  show "\<exists>evs. trace (snd (remove_metadata F p out k w)) = trace w @ Call (LoadWAVE p) # evs"
    by (rule extends_after_emit)
next
  assume u: "\<not> endswith (lower p) ''.mp3'' \<and> \<not> endswith (lower p) ''.flac'' \<and> \<not> endswith (lower p) ''.wav''"
  then have t: "\<And>out k w. remove_metadata_try F p out k w =
      (Inl (ValueError ''Unsupported file format. Supported formats: MP3, FLAC, WAV''), w)"
    by (simp add: try_unsupported)
  have r: "remove_metadata F p out k w =
          (Inl (ValueError ''Unsupported file format. Supported formats: MP3, FLAC, WAV''),
           w\<lparr>trace := trace w @ [Log ERROR ''Unsupported file format. Supported formats: MP3, FLAC, WAV'']\<rparr>)"
    for out k w
    by (simp add: rm_Value[OF t] logging_def emit_def)
  show "remove_metadata F p out k w =
          (Inl (ValueError ''Unsupported file format. Supported formats: MP3, FLAC, WAV''),
           w\<lparr>trace := trace w @ [Log ERROR ''Unsupported file format. Supported formats: MP3, FLAC, WAV'']\<rparr>)"
    by (rule r)
  assume a: "input_file a = p"
  have nolog: "main F a w =
                    (1, [''Error: Unsupported file format. Supported formats: MP3, FLAC, WAV''],
                     w\<lparr>trace := trace w @ [Log ERROR ''Unsupported file format. Supported formats: MP3, FLAC, WAV'']\<rparr>)"
    if "log_file a = None \<or> log_file a = Some []"
    unfolding main_no_log_file[OF that] a r by (simp add: report_def)
  have opened: "main F a w =
                    (1, [''Error: Unsupported file format. Supported formats: MP3, FLAC, WAV''],
                     w\<lparr>files := (case files w lf of None \<Rightarrow> (files w)(lf \<mapsto> None) | Some f \<Rightarrow> files w),
                        trace := trace w @ [Call (OpenLog lf),
                          Log ERROR ''Unsupported file format. Supported formats: MP3, FLAC, WAV''],
                        handlers := handlers w @ [lf]\<rparr>)"
    if "log_file a = Some lf \<and> lf \<noteq> [] \<and> F (OpenLog lf) = None" for lf
    using that unfolding main_log_file_opened[where F = F, OF conjunct1[OF that] conjunct1[OF conjunct2[OF that]] conjunct2[OF conjunct2[OF that]]] a r
    by (simp add: report_def)
  have failed: "main F a w = (1, [], w\<lparr>trace := trace w @ [Call (OpenLog lf)]\<rparr>)"
    if "log_file a = Some lf \<and> lf \<noteq> [] \<and> F (OpenLog lf) = Some m" for lf m
    using that main_log_file_unopenable[where F = F and a = a and lf = lf and m = m and w = w] by blast
  show "fst (main F a w) = 1"
  proof (cases "log_file a")
    case None
    with nolog show ?thesis by simp
  next
    case (Some lf)
    show ?thesis
    proof (cases "lf = []")
      case True
      with Some nolog show ?thesis by simp
    next
      case False
      show ?thesis
      proof (cases "F (OpenLog lf)")
        case None
        with Some False opened[of lf] show ?thesis by simp
      next
        case (Some m)
        with \<open>log_file a = Some lf\<close> False failed[of lf m] show ?thesis by simp
      qed
    qed
  qed
  {
    assume "log_file a = None \<or> log_file a = Some []"
    then show "main F a w =
                    (1, [''Error: Unsupported file format. Supported formats: MP3, FLAC, WAV''],
                     w\<lparr>trace := trace w @ [Log ERROR ''Unsupported file format. Supported formats: MP3, FLAC, WAV'']\<rparr>)"
      by (rule nolog)
  }
  {
    fix lf
    assume "log_file a = Some lf \<and> lf \<noteq> [] \<and> F (OpenLog lf) = None"
    then show "main F a w =
                    (1, [''Error: Unsupported file format. Supported formats: MP3, FLAC, WAV''],
                     w\<lparr>files := (case files w lf of None \<Rightarrow> (files w)(lf \<mapsto> None) | Some f \<Rightarrow> files w),
                        trace := trace w @ [Call (OpenLog lf),
                          Log ERROR ''Unsupported file format. Supported formats: MP3, FLAC, WAV''],
                        handlers := handlers w @ [lf]\<rparr>)"
      by (rule opened)
  }
  {
    fix lf m
    assume "log_file a = Some lf \<and> lf \<noteq> [] \<and> F (OpenLog lf) = Some m"
    then show "main F a w = (1, [], w\<lparr>trace := trace w @ [Call (OpenLog lf)]\<rparr>)"
      by (rule failed)
  }
qed

theorem format_is_decided_by_suffix_witness:
  "endswith (lower ''A.Mp3'') ''.mp3''
   \<and> (\<exists>evs. trace (snd (remove_metadata (\<lambda>c. None) ''A.Mp3'' None None
         \<lparr>files = Map.empty, trace = [], handlers = []\<rparr>)) = Call (LoadMP3 ''A.Mp3'') # evs)
   \<and> endswith (lower ''b.FLAC'') ''.flac''
   \<and> (\<exists>evs. trace (snd (remove_metadata (\<lambda>c. None) ''b.FLAC'' None None
         \<lparr>files = Map.empty, trace = [], handlers = []\<rparr>)) = Call (LoadFLAC ''b.FLAC'') # evs)
   \<and> endswith (lower ''c.waV'') ''.wav''
   \<and> (\<exists>evs. trace (snd (remove_metadata (\<lambda>c. None) ''c.waV'' None None
         \<lparr>files = Map.empty, trace = [], handlers = []\<rparr>)) = Call (LoadWAVE ''c.waV'') # evs)
   \<and> \<not> endswith (lower ''d.ogg'') ''.mp3'' \<and> \<not> endswith (lower ''d.ogg'') ''.flac''
   \<and> \<not> endswith (lower ''d.ogg'') ''.wav''
   \<and> remove_metadata (\<lambda>c. None) ''d.ogg'' None None \<lparr>files = [''d.ogg'' \<mapsto> Some []], trace = [], handlers = []\<rparr>
       = (Inl (ValueError ''Unsupported file format. Supported formats: MP3, FLAC, WAV''),
          \<lparr>files = [''d.ogg'' \<mapsto> Some []],
            trace = [Log ERROR ''Unsupported file format. Supported formats: MP3, FLAC, WAV''],
            handlers = []\<rparr>)
   \<and> main (\<lambda>c. None) \<lparr>input_file = ''d.ogg'', output_file = None, keep = None, log_file = None\<rparr>
        \<lparr>files = [''d.ogg'' \<mapsto> Some []], trace = [], handlers = []\<rparr> =
       (1, [''Error: Unsupported file format. Supported formats: MP3, FLAC, WAV''],
        \<lparr>files = [''d.ogg'' \<mapsto> Some []],
          trace = [Log ERROR ''Unsupported file format. Supported formats: MP3, FLAC, WAV''],
          handlers = []\<rparr>)
   \<and> main (\<lambda>c. None) \<lparr>input_file = ''d.ogg'', output_file = None, keep = None, log_file = Some ''run.log''\<rparr>
        \<lparr>files = [''d.ogg'' \<mapsto> Some []], trace = [], handlers = []\<rparr> =
       (1, [''Error: Unsupported file format. Supported formats: MP3, FLAC, WAV''],
        \<lparr>files = [''d.ogg'' \<mapsto> Some [], ''run.log'' \<mapsto> None],
          trace = [Call (OpenLog ''run.log''),
                   Log ERROR ''Unsupported file format. Supported formats: MP3, FLAC, WAV''],
          handlers = [''run.log'']\<rparr>)
   \<and> main (\<lambda>c. if c = OpenLog ''/no/such/dir/run.log'' then Some ''No such file or directory'' else None)
        \<lparr>input_file = ''d.ogg'', output_file = None, keep = None, log_file = Some ''/no/such/dir/run.log''\<rparr>
        \<lparr>files = [''d.ogg'' \<mapsto> Some []], trace = [], handlers = []\<rparr> =
       (1, [], \<lparr>files = [''d.ogg'' \<mapsto> Some []], trace = [Call (OpenLog ''/no/such/dir/run.log'')], handlers = []\<rparr>)"
proof -
  let ?w = "\<lparr>files = [''d.ogg'' \<mapsto> Some []], trace = [], handlers = []\<rparr>"
  let ?G = "\<lambda>c. if c = OpenLog ''/no/such/dir/run.log'' then Some ''No such file or directory'' else None"
  have h1: "endswith (lower ''A.Mp3'') ''.mp3''"
    and h2: "endswith (lower ''b.FLAC'') ''.flac''"
    and h3: "endswith (lower ''c.waV'') ''.wav''"
    and h4: "\<not> endswith (lower ''d.ogg'') ''.mp3'' \<and> \<not> endswith (lower ''d.ogg'') ''.flac''
      \<and> \<not> endswith (lower ''d.ogg'') ''.wav''"
    by (simp_all add: endswith_def lower_def lower_char_def)
  note w0 = format_is_decided_by_suffix[of _ "\<lambda>c. None" None None "\<lparr>files = Map.empty, trace = [], handlers = []\<rparr>"]
  from w0[of "''A.Mp3''"] h1
  have c1: "\<exists>evs. trace (snd (remove_metadata (\<lambda>c. None) ''A.Mp3'' None None
         \<lparr>files = Map.empty, trace = [], handlers = []\<rparr>)) = Call (LoadMP3 ''A.Mp3'') # evs"
    by simp
  from w0[of "''b.FLAC''"] h2
  have c2: "\<exists>evs. trace (snd (remove_metadata (\<lambda>c. None) ''b.FLAC'' None None
         \<lparr>files = Map.empty, trace = [], handlers = []\<rparr>)) = Call (LoadFLAC ''b.FLAC'') # evs"
    by simp
  from w0[of "''c.waV''"] h3
  have c3: "\<exists>evs. trace (snd (remove_metadata (\<lambda>c. None) ''c.waV'' None None
         \<lparr>files = Map.empty, trace = [], handlers = []\<rparr>)) = Call (LoadWAVE ''c.waV'') # evs"
    by simp
  note u = mp[OF conjunct2[OF conjunct2[OF conjunct2[OF format_is_decided_by_suffix[of "''d.ogg''" _ None None ?w]]]] h4]
  from conjunct1[OF u[of "\<lambda>c. None"]]
  have c4: "remove_metadata (\<lambda>c. None) ''d.ogg'' None None ?w
       = (Inl (ValueError ''Unsupported file format. Supported formats: MP3, FLAC, WAV''),
          \<lparr>files = [''d.ogg'' \<mapsto> Some []],
            trace = [Log ERROR ''Unsupported file format. Supported formats: MP3, FLAC, WAV''],
            handlers = []\<rparr>)"
    by simp
  from conjunct2[OF u[of "\<lambda>c. None" "\<lparr>input_file = ''d.ogg'', output_file = None, keep = None, log_file = None\<rparr>"]]
  have c5: "main (\<lambda>c. None) \<lparr>input_file = ''d.ogg'', output_file = None, keep = None, log_file = None\<rparr> ?w =
       (1, [''Error: Unsupported file format. Supported formats: MP3, FLAC, WAV''],
        \<lparr>files = [''d.ogg'' \<mapsto> Some []],
          trace = [Log ERROR ''Unsupported file format. Supported formats: MP3, FLAC, WAV''],
          handlers = []\<rparr>)"
    by simp
  from conjunct2[OF u[of "\<lambda>c. None" "\<lparr>input_file = ''d.ogg'', output_file = None, keep = None, log_file = Some ''run.log''\<rparr>"]]
  have c6: "main (\<lambda>c. None) \<lparr>input_file = ''d.ogg'', output_file = None, keep = None, log_file = Some ''run.log''\<rparr> ?w =
       (1, [''Error: Unsupported file format. Supported formats: MP3, FLAC, WAV''],
        \<lparr>files = [''d.ogg'' \<mapsto> Some [], ''run.log'' \<mapsto> None],
          trace = [Call (OpenLog ''run.log''),
                   Log ERROR ''Unsupported file format. Supported formats: MP3, FLAC, WAV''],
          handlers = [''run.log'']\<rparr>)"
    by simp
  from conjunct2[OF u[of ?G "\<lparr>input_file = ''d.ogg'', output_file = None, keep = None, log_file = Some ''/no/such/dir/run.log''\<rparr>"]]
  have c7: "main ?G \<lparr>input_file = ''d.ogg'', output_file = None, keep = None, log_file = Some ''/no/such/dir/run.log''\<rparr> ?w =
       (1, [], \<lparr>files = [''d.ogg'' \<mapsto> Some []], trace = [Call (OpenLog ''/no/such/dir/run.log'')], handlers = []\<rparr>)"
    by simp
  from h1 h2 h3 h4 c1 c2 c3 c4 c5 c6 c7 show ?thesis by blast
qed

text \<open>
  Claim C4. For a WAV input the keep-list and the output path have no effect. When an ID3
  sub-container is present it is deleted in place on the input file, and when none is
  present no file changes; in neither case is there a save call, nor in any other run on
  a WAV path.
\<close>

theorem wav_ignores_keep_list_and_output_path:
  assumes "endswith (lower p) ''.wav''"
  shows "remove_metadata F p out k w = remove_metadata F p None None w
    \<and> (files w p = Some (Some id3) \<and> F (LoadWAVE p) = None \<and> F (LoadID3 p) = None \<and> F (ID3Delete p) = None \<longrightarrow>
         remove_metadata F p out k w =
           (Inr (), w\<lparr>files := (files w)(p \<mapsto> None),
                trace := trace w @ [Call (LoadWAVE p), Call (LoadID3 p), Call (ID3Delete p),
                  Log INFO (''ID3 tags removed from '' @ p),
                  Log INFO (''ID3 metadata removed from '' @ p @ ''.'')]\<rparr>))
    \<and> (files w p = Some None \<and> F (LoadWAVE p) = None \<and> F (LoadID3 p) = None \<longrightarrow>
         remove_metadata F p out k w =
           (Inr (), w\<lparr>trace := trace w @ [Call (LoadWAVE p), Call (LoadID3 p),
                  Log INFO (''No ID3 tags found in '' @ p @ ''.''),
                  Log INFO (''ID3 metadata removed from '' @ p @ ''.'')]\<rparr>))
    \<and> filter is_save (calls (trace (snd (remove_metadata F p out k w)))) = filter is_save (calls (trace w))"
proof (intro conjI impI)
  have "remove_metadata_try F p out k w = remove_metadata_try F p None None w"
    unfolding try_wav[OF assms] process_wav ..
  then show "remove_metadata F p out k w = remove_metadata F p None None w"
    by (rule rm_cong)
next
  assume "files w p = Some (Some id3) \<and> F (LoadWAVE p) = None \<and> F (LoadID3 p) = None \<and> F (ID3Delete p) = None"
  then show "remove_metadata F p out k w =
           (Inr (), w\<lparr>files := (files w)(p \<mapsto> None),
                trace := trace w @ [Call (LoadWAVE p), Call (LoadID3 p), Call (ID3Delete p),
                  Log INFO (''ID3 tags removed from '' @ p),
                  Log INFO (''ID3 metadata removed from '' @ p @ ''.'')]\<rparr>)"
    using wav_run_present[where F = F, OF assms] by blast
next
  assume "files w p = Some None \<and> F (LoadWAVE p) = None \<and> F (LoadID3 p) = None"
  then show "remove_metadata F p out k w =
           (Inr (), w\<lparr>trace := trace w @ [Call (LoadWAVE p), Call (LoadID3 p),
                  Log INFO (''No ID3 tags found in '' @ p @ ''.''),
                  Log INFO (''ID3 metadata removed from '' @ p @ ''.'')]\<rparr>)"
    using wav_run_absent[where F = F, OF assms] by blast
next
  show "filter is_save (calls (trace (snd (remove_metadata F p out k w)))) = filter is_save (calls (trace w))"
    using assms by (rule wav_never_saves)
qed

theorem wav_ignores_keep_list_and_output_path_witness:
  "endswith (lower ''take.WAV'') ''.wav''
   \<and> remove_metadata (\<lambda>c. None) ''take.WAV'' (Some ''other.wav'') (Some [''title''])
        \<lparr>files = [''take.WAV'' \<mapsto> Some [(''title'', ''x'')]], trace = [], handlers = []\<rparr> =
      (Inr (), \<lparr>files = [''take.WAV'' \<mapsto> None],
         trace = [Call (LoadWAVE ''take.WAV''), Call (LoadID3 ''take.WAV''), Call (ID3Delete ''take.WAV''),
                  Log INFO ''ID3 tags removed from take.WAV'',
                  Log INFO ''ID3 metadata removed from take.WAV.''],
         handlers = []\<rparr>)
   \<and> remove_metadata (\<lambda>c. None) ''take.WAV'' (Some ''other.wav'') (Some [''title''])
        \<lparr>files = [''take.WAV'' \<mapsto> None], trace = [], handlers = []\<rparr> =
      (Inr (), \<lparr>files = [''take.WAV'' \<mapsto> None],
         trace = [Call (LoadWAVE ''take.WAV''), Call (LoadID3 ''take.WAV''),
                  Log INFO ''No ID3 tags found in take.WAV.'',
                  Log INFO ''ID3 metadata removed from take.WAV.''],
         handlers = []\<rparr>)"
proof -
  have h: "endswith (lower ''take.WAV'') ''.wav''"
    by (simp add: endswith_def lower_def lower_char_def)
  from conjunct1[OF conjunct2[OF wav_ignores_keep_list_and_output_path[OF h, of "\<lambda>c. None" "Some ''other.wav''" "Some [''title'']"
      "\<lparr>files = [''take.WAV'' \<mapsto> Some [(''title'', ''x'')]], trace = [], handlers = []\<rparr>" "[(''title'', ''x'')]"]]]
  have a: "remove_metadata (\<lambda>c. None) ''take.WAV'' (Some ''other.wav'') (Some [''title''])
        \<lparr>files = [''take.WAV'' \<mapsto> Some [(''title'', ''x'')]], trace = [], handlers = []\<rparr> =
      (Inr (), \<lparr>files = [''take.WAV'' \<mapsto> None],
         trace = [Call (LoadWAVE ''take.WAV''), Call (LoadID3 ''take.WAV''), Call (ID3Delete ''take.WAV''),
                  Log INFO ''ID3 tags removed from take.WAV'',
                  Log INFO ''ID3 metadata removed from take.WAV.''],
         handlers = []\<rparr>)"
    by simp
  from conjunct1[OF conjunct2[OF conjunct2[OF wav_ignores_keep_list_and_output_path[OF h, of "\<lambda>c. None" "Some ''other.wav''" "Some [''title'']"
      "\<lparr>files = [''take.WAV'' \<mapsto> None], trace = [], handlers = []\<rparr>"]]]]
  have b: "remove_metadata (\<lambda>c. None) ''take.WAV'' (Some ''other.wav'') (Some [''title''])
        \<lparr>files = [''take.WAV'' \<mapsto> None], trace = [], handlers = []\<rparr> =
      (Inr (), \<lparr>files = [''take.WAV'' \<mapsto> None],
         trace = [Call (LoadWAVE ''take.WAV''), Call (LoadID3 ''take.WAV''),
                  Log INFO ''No ID3 tags found in take.WAV.'',
                  Log INFO ''ID3 metadata removed from take.WAV.''],
         handlers = []\<rparr>)"
    by simp
  from h a b show ?thesis by blast
qed

text \<open>
  Claim C1. For an MP3 file with a tag header or a FLAC file, with tags \<open>T\<close>, and any
  keep-list \<open>K\<close>: a run on which no library call fails completes, and after any
  completed run the container written to the save target has exactly the keys of
  \<open>T\<close> that are in \<open>K\<close> (none when no keep-list is given), and every entry of it
  is an entry of the original container, so no key is created.
\<close>

theorem surviving_keys_are_original_keys_in_keep_list:
  assumes "endswith (lower p) ''.mp3'' \<or> endswith (lower p) ''.flac''"
    and "files w p = Some f"
    and "endswith (lower p) ''.mp3'' \<longrightarrow> f \<noteq> None"
  shows "(F (LoadMP3 p) = None \<and> F (LoadFLAC p) = None
            \<and> (\<forall>t\<in>set (tags_to_remove (tags_of f) keep_tags). F (DelItem t) = None)
            \<and> F (Save (target p out)) = None
          \<longrightarrow> fst (remove_metadata F p out keep_tags w) = Inr ())
    \<and> (\<forall>w'. remove_metadata F p out keep_tags w = (Inr (), w') \<longrightarrow>
          (\<exists>audio'. files w' (target p out) = Some (Some audio')
             \<and> set (keys audio') = set (keys (tags_of f)) \<inter> set (kept keep_tags)
             \<and> set audio' \<subseteq> set (tags_of f)))"
proof (intro conjI impI allI)
  assume "F (LoadMP3 p) = None \<and> F (LoadFLAC p) = None
            \<and> (\<forall>t\<in>set (tags_to_remove (tags_of f) keep_tags). F (DelItem t) = None)
            \<and> F (Save (target p out)) = None"
  then show "fst (remove_metadata F p out keep_tags w) = Inr ()"
    using run_completes[where F = F, OF assms] by blast
next
  fix w'
  assume "remove_metadata F p out keep_tags w = (Inr (), w')"
  from completed_run(1)[OF assms this]
  have "files w' (target p out) = Some (Some (filter (\<lambda>kv. fst kv \<in> set (kept keep_tags)) (tags_of f)))"
    by simp
  moreover have "set (keys (filter (\<lambda>kv. fst kv \<in> set (kept keep_tags)) (tags_of f))) =
      set (keys (tags_of f)) \<inter> set (kept keep_tags)"
    by (rule keys_filter_in)
  moreover have "set (filter (\<lambda>kv. fst kv \<in> set (kept keep_tags)) (tags_of f)) \<subseteq> set (tags_of f)"
    by simp
  ultimately show "\<exists>audio'. files w' (target p out) = Some (Some audio')
             \<and> set (keys audio') = set (keys (tags_of f)) \<inter> set (kept keep_tags)
             \<and> set audio' \<subseteq> set (tags_of f)"
    by blast
qed

theorem surviving_keys_are_original_keys_in_keep_list_witness:
  "endswith (lower ''song.mp3'') ''.mp3''
   \<and> fst (remove_metadata (\<lambda>c. None) ''song.mp3'' None (Some [''title'', ''artist''])
        \<lparr>files = [''song.mp3'' \<mapsto> Some [(''title'', ''T''), (''artist'', ''A''), (''album'', ''B''), (''year'', ''Y'')]],
         trace = [], handlers = []\<rparr>) = Inr ()
   \<and> (\<exists>audio'. files (snd (remove_metadata (\<lambda>c. None) ''song.mp3'' None (Some [''title'', ''artist''])
        \<lparr>files = [''song.mp3'' \<mapsto> Some [(''title'', ''T''), (''artist'', ''A''), (''album'', ''B''), (''year'', ''Y'')]],
         trace = [], handlers = []\<rparr>)) ''song.mp3'' = Some (Some audio')
        \<and> set (keys audio') = {''title'', ''artist''})"
proof -
  let ?w = "\<lparr>files = [''song.mp3'' \<mapsto> Some [(''title'', ''T''), (''artist'', ''A''), (''album'', ''B''), (''year'', ''Y'')]],
         trace = [], handlers = []\<rparr>"
  let ?r = "remove_metadata (\<lambda>c. None) ''song.mp3'' None (Some [''title'', ''artist'']) ?w"
  have h: "endswith (lower ''song.mp3'') ''.mp3''"
    by (simp add: endswith_def lower_def lower_char_def)
  then have h1: "endswith (lower ''song.mp3'') ''.mp3'' \<or> endswith (lower ''song.mp3'') ''.flac''" ..
  have h2: "files ?w ''song.mp3'' = Some (Some [(''title'', ''T''), (''artist'', ''A''), (''album'', ''B''), (''year'', ''Y'')])"
    by simp
  have h3: "endswith (lower ''song.mp3'') ''.mp3'' \<longrightarrow>
      Some [(''title'', ''T''), (''artist'', ''A''), (''album'', ''B''), (''year'', ''Y'')] \<noteq> None"
    by simp
  note t = surviving_keys_are_original_keys_in_keep_list[OF h1 h2 h3, of "\<lambda>c. None" "Some [''title'', ''artist'']" None]
  from t have a: "fst ?r = Inr ()" by simp
  then have "?r = (Inr (), snd ?r)" by (metis prod.collapse)
  with t obtain audio' where "files (snd ?r) (target ''song.mp3'' None) = Some (Some audio')"
    and "set (keys audio') = set (keys (tags_of (Some [(''title'', ''T''), (''artist'', ''A''), (''album'', ''B''), (''year'', ''Y'')])))
       \<inter> set (kept (Some [''title'', ''artist'']))"
    by blast
  then have "files (snd ?r) ''song.mp3'' = Some (Some audio') \<and> set (keys audio') = {''title'', ''artist''}"
    by (auto simp: target_def tags_of_def kept_def keys_def)
  with h a show ?thesis by blast
qed

text \<open>
  Claim C6. In the scenario of a run on \<open>track.flac\<close> with output \<open>out.flac\<close>, no
  keep-list and the input tags \<open>{comment}\<close>, the empty container is written to
  \<open>out.flac\<close> and \<open>track.flac\<close> is as it was. In general a completed MP3 or FLAC run
  changes the files at the save target only, its single save call goes there, and the
  target is the output path when one is given and the input path otherwise.
\<close>

theorem save_goes_to_the_output_path:
  "(files w ''track.flac'' = Some (Some [(''comment'', v)]) \<and> (\<forall>c. F c = None) \<longrightarrow>
      (\<exists>w'. remove_metadata F ''track.flac'' (Some ''out.flac'') None w = (Inr (), w')
         \<and> files w' = (files w)(''out.flac'' \<mapsto> Some [])
         \<and> files w' ''track.flac'' = files w ''track.flac''
         \<and> calls (trace w') = calls (trace w) @ [LoadFLAC ''track.flac'', DelItem ''comment'', Save ''out.flac'']))
   \<and> ((endswith (lower p) ''.mp3'' \<or> endswith (lower p) ''.flac'') \<and> files w p = Some f
        \<and> (endswith (lower p) ''.mp3'' \<longrightarrow> f \<noteq> None)
        \<and> remove_metadata F p out k w = (Inr (), w') \<longrightarrow>
        (\<exists>audio'. files w' = (files w)(target p out \<mapsto> Some audio'))
        \<and> calls (trace w') = calls (trace w) @
             (if endswith (lower p) ''.mp3'' then LoadMP3 p else LoadFLAC p) #
             map DelItem (tags_to_remove (tags_of f) k) @ [Save (target p out)])
   \<and> target p None = p \<and> target p (Some q) = q"
proof (intro conjI impI)
  assume a: "files w ''track.flac'' = Some (Some [(''comment'', v)]) \<and> (\<forall>c. F c = None)"
  let ?p = "''track.flac''"
  let ?r = "remove_metadata F ?p (Some ''out.flac'') None w"
  have fl: "endswith (lower ?p) ''.flac''"
    by (simp add: endswith_def lower_def lower_char_def)
  then have t: "endswith (lower ?p) ''.mp3'' \<or> endswith (lower ?p) ''.flac''" ..
  have nm: "\<not> endswith (lower ?p) ''.mp3''" using fl by (rule flac_not_mp3)
  then have h: "endswith (lower ?p) ''.mp3'' \<longrightarrow> Some [(''comment'', v)] \<noteq> None" by simp
  from a have ex: "files w ?p = Some (Some [(''comment'', v)])" by simp
  from a have "fst ?r = Inr ()"
    by (intro run_completes[OF t ex h]) simp_all
  then have r: "?r = (Inr (), snd ?r)" by (metis prod.collapse)
  from completed_run[OF t ex h r] nm
  have "files (snd ?r) = (files w)(''out.flac'' \<mapsto> Some [])"
    and "calls (trace (snd ?r)) = calls (trace w) @ [LoadFLAC ?p, DelItem ''comment'', Save ''out.flac'']"
    by (simp_all add: target_def kept_def tags_of_def tags_to_remove_def keys_def)
  moreover from this(1) have "files (snd ?r) ?p = files w ?p" by simp
  ultimately show "\<exists>w'. ?r = (Inr (), w')
         \<and> files w' = (files w)(''out.flac'' \<mapsto> Some [])
         \<and> files w' ''track.flac'' = files w ''track.flac''
         \<and> calls (trace w') = calls (trace w) @ [LoadFLAC ''track.flac'', DelItem ''comment'', Save ''out.flac'']"
    using r by blast
next
  assume a: "(endswith (lower p) ''.mp3'' \<or> endswith (lower p) ''.flac'') \<and> files w p = Some f
        \<and> (endswith (lower p) ''.mp3'' \<longrightarrow> f \<noteq> None)
        \<and> remove_metadata F p out k w = (Inr (), w')"
  then have a1: "endswith (lower p) ''.mp3'' \<or> endswith (lower p) ''.flac''"
    and a2: "files w p = Some f" and a3: "endswith (lower p) ''.mp3'' \<longrightarrow> f \<noteq> None"
    and a4: "remove_metadata F p out k w = (Inr (), w')" by blast+
  from completed_run(1)[OF a1 a2 a3 a4]
  show "\<exists>audio'. files w' = (files w)(target p out \<mapsto> Some audio')" by blast
  from completed_run(2)[OF a1 a2 a3 a4]
  show "calls (trace w') = calls (trace w) @
             (if endswith (lower p) ''.mp3'' then LoadMP3 p else LoadFLAC p) #
             map DelItem (tags_to_remove (tags_of f) k) @ [Save (target p out)]" .
next
  show "target p None = p" by (simp add: target_def)
  show "target p (Some q) = q" by (simp add: target_def)
qed

theorem save_goes_to_the_output_path_witness:
  "\<exists>w'. remove_metadata (\<lambda>c. None) ''track.flac'' (Some ''out.flac'') None
        \<lparr>files = [''track.flac'' \<mapsto> Some [(''comment'', ''hello'')]], trace = [], handlers = []\<rparr> = (Inr (), w')
     \<and> files w' = [''track.flac'' \<mapsto> Some [(''comment'', ''hello'')], ''out.flac'' \<mapsto> Some []]
     \<and> calls (trace w') = [LoadFLAC ''track.flac'', DelItem ''comment'', Save ''out.flac'']
     \<and> endswith (lower ''track.flac'') ''.flac''"
proof -
  let ?w = "\<lparr>files = [''track.flac'' \<mapsto> Some [(''comment'', ''hello'')]], trace = [], handlers = []\<rparr>"
  note t = save_goes_to_the_output_path[of ?w "''hello''" "\<lambda>c. None" "''track.flac''" "Some [(''comment'', ''hello'')]"
      "Some ''out.flac''" None]
  have fl: "endswith (lower ''track.flac'') ''.flac''"
    by (simp add: endswith_def lower_def lower_char_def)
  have "files ?w ''track.flac'' = Some (Some [(''comment'', ''hello'')]) \<and> (\<forall>c. (\<lambda>c. None) c = (None :: string option))"
    by simp
  from mp[OF conjunct1[OF t] this] obtain w' where
    r: "remove_metadata (\<lambda>c. None) ''track.flac'' (Some ''out.flac'') None ?w = (Inr (), w')"
    and f: "files w' = (files ?w)(''out.flac'' \<mapsto> Some [])"
    by blast
  have "(endswith (lower ''track.flac'') ''.mp3'' \<or> endswith (lower ''track.flac'') ''.flac'')
      \<and> files ?w ''track.flac'' = Some (Some [(''comment'', ''hello'')])
      \<and> (endswith (lower ''track.flac'') ''.mp3'' \<longrightarrow> Some [(''comment'', ''hello'')] \<noteq> None)
      \<and> remove_metadata (\<lambda>c. None) ''track.flac'' (Some ''out.flac'') None ?w = (Inr (), w')"
    using fl r by simp
  from mp[OF conjunct1[OF conjunct2[OF t[of w']]] this] flac_not_mp3[OF fl]
  have "calls (trace w') = [LoadFLAC ''track.flac'', DelItem ''comment'', Save ''out.flac'']"
    by (simp add: target_def tags_of_def tags_to_remove_def keys_def)
  with r f fl show ?thesis by simp
qed

text \<open>
  Claim C7. Deleting a tag name that is not in the container is not fatal: the delete
  loop logs a warning and goes on with the remaining tags and the same container; a
  list of absent names is run to its end; an exception that leaves the loop is never
  the missing-key error; and when the library fails on none of the tags the loop
  completes.
\<close>

theorem missing_key_is_skipped_with_a_warning:
  "(tag \<notin> set (keys audio) \<longrightarrow>
      delete_tags F f (tag # rest) audio w =
        delete_tags F f rest audio
          (w\<lparr>trace := trace w @ [Call (DelItem tag),
             Log WARNING (''Tag '' @ quote tag @ '' not found in '' @ f @ '', skipping.'')]\<rparr>))
   \<and> ((\<forall>t\<in>set tags. t \<notin> set (keys audio)) \<longrightarrow>
        delete_tags F f tags audio w =
          (Inr audio, w\<lparr>trace := trace w @
             concat (map (\<lambda>t. [Call (DelItem t),
               Log WARNING (''Tag '' @ quote t @ '' not found in '' @ f @ '', skipping.'')]) tags)\<rparr>))
   \<and> (\<forall>e w'. delete_tags F f tags audio w = (Inl e, w') \<longrightarrow>
        (\<exists>t\<in>set tags. \<exists>m. F (DelItem t) = Some m \<and> e = OtherError m))
   \<and> ((\<forall>t\<in>set tags. F (DelItem t) = None) \<longrightarrow>
        fst (delete_tags F f tags audio w) = Inr (filter (\<lambda>kv. fst kv \<notin> set tags) audio))"
proof (intro conjI impI allI)
  assume "tag \<notin> set (keys audio)"
  then show "delete_tags F f (tag # rest) audio w =
        delete_tags F f rest audio
          (w\<lparr>trace := trace w @ [Call (DelItem tag),
             Log WARNING (''Tag '' @ quote tag @ '' not found in '' @ f @ '', skipping.'')]\<rparr>)"
    by (simp add: delete_tags_absent logging_def emit_def)
next
  assume "\<forall>t\<in>set tags. t \<notin> set (keys audio)"
  then show "delete_tags F f tags audio w =
          (Inr audio, w\<lparr>trace := trace w @
             concat (map (\<lambda>t. [Call (DelItem t),
               Log WARNING (''Tag '' @ quote t @ '' not found in '' @ f @ '', skipping.'')]) tags)\<rparr>)"
    by (rule delete_tags_all_absent)
next
  fix e w'
  assume "delete_tags F f tags audio w = (Inl e, w')"
  then show "\<exists>t\<in>set tags. \<exists>m. F (DelItem t) = Some m \<and> e = OtherError m"
    by (rule delete_tags_Inl)
next
  assume "\<forall>t\<in>set tags. F (DelItem t) = None"
  then show "fst (delete_tags F f tags audio w) = Inr (filter (\<lambda>kv. fst kv \<notin> set tags) audio)"
    by (rule delete_tags_no_fault)
qed

theorem missing_key_is_skipped_with_a_warning_witness:
  "''year'' \<notin> set (keys [(''title'', ''T'')])
   \<and> delete_tags (\<lambda>c. None) ''a.mp3'' [''year'', ''title''] [(''title'', ''T'')] \<lparr>files = Map.empty, trace = [], handlers = []\<rparr> =
       (Inr [], \<lparr>files = Map.empty,
          trace = [Call (DelItem ''year''), Log WARNING ''Tag 'year' not found in a.mp3, skipping.'',
                   Call (DelItem ''title'')],
          handlers = []\<rparr>)
   \<and> delete_tags (\<lambda>c. None) ''a.mp3'' [''year'', ''genre''] [(''title'', ''T'')] \<lparr>files = Map.empty, trace = [], handlers = []\<rparr> =
       (Inr [(''title'', ''T'')], \<lparr>files = Map.empty,
          trace = [Call (DelItem ''year''), Log WARNING ''Tag 'year' not found in a.mp3, skipping.'',
                   Call (DelItem ''genre''), Log WARNING ''Tag 'genre' not found in a.mp3, skipping.''],
          handlers = []\<rparr>)"
proof -
  let ?w = "\<lparr>files = Map.empty, trace = [], handlers = []\<rparr>"
  have h: "''year'' \<notin> set (keys [(''title'', ''T'')])" by (simp add: keys_def)
  have h2: "\<forall>t\<in>set [''year'', ''genre'']. t \<notin> set (keys [(''title'', ''T'')])" by (simp add: keys_def)
  note t = missing_key_is_skipped_with_a_warning[of _ "[(''title'', ''T'')]" "\<lambda>c. None" "''a.mp3''" _ ?w]
  from mp[OF conjunct1[OF t[of "''year''" "[''title'']"]] h]
  have a: "delete_tags (\<lambda>c. None) ''a.mp3'' [''year'', ''title''] [(''title'', ''T'')] ?w =
       (Inr [], \<lparr>files = Map.empty,
          trace = [Call (DelItem ''year''), Log WARNING ''Tag 'year' not found in a.mp3, skipping.'',
                   Call (DelItem ''title'')],
          handlers = []\<rparr>)"
    by (simp add: delete_tags.simps(2) delitem_def keys_def quote_def emit_def)
  from mp[OF conjunct1[OF conjunct2[OF t[of "''year''" "[]" "[''year'', ''genre'']"]]] h2]
  have b: "delete_tags (\<lambda>c. None) ''a.mp3'' [''year'', ''genre''] [(''title'', ''T'')] ?w =
       (Inr [(''title'', ''T'')], \<lparr>files = Map.empty,
          trace = [Call (DelItem ''year''), Log WARNING ''Tag 'year' not found in a.mp3, skipping.'',
                   Call (DelItem ''genre''), Log WARNING ''Tag 'genre' not found in a.mp3, skipping.''],
          handlers = []\<rparr>)"
    by (simp add: quote_def)
  from h a b show ?thesis by blast
qed

text \<open>
  Claim C5. In an MP3 or FLAC run, when the deletion of a tag fails with an exception
  other than the missing-key error, the run logs the error and aborts with that
  exception: the tags after the failing one are not attempted, no save call is made,
  and the files are as they were.
\<close>

theorem deletion_failure_aborts_before_save:
  assumes tagged: "endswith (lower p) ''.mp3'' \<or> endswith (lower p) ''.flac''"
    and ex: "files w p = Some f"
    and hdr: "endswith (lower p) ''.mp3'' \<longrightarrow> f \<noteq> None"
    and nold: "F (LoadMP3 p) = None \<and> F (LoadFLAC p) = None"
    and split: "tags_to_remove (tags_of f) k = pre @ t # post"
    and pre: "\<forall>u\<in>set pre. F (DelItem u) = None"
    and flt: "F (DelItem t) = Some m"
  shows "\<exists>w'. remove_metadata F p out k w = (Inl (OtherError m), w')
           \<and> files w' = files w
           \<and> calls (trace w') = calls (trace w) @
                (if endswith (lower p) ''.mp3'' then LoadMP3 p else LoadFLAC p) # map DelItem (pre @ [t])
           \<and> (\<exists>evs. trace w' = trace w @ evs @
                [Call (DelItem t),
                 Log ERROR (''Error deleting tag '' @ quote t @ '' from '' @ p @ '': '' @ m),
                 Log ERROR (''An unexpected error occurred: '' @ m)])"
proof -
  from try_tagged[OF tagged ex hdr, of F out k] obtain ld ft where
    ld: "ld = (if endswith (lower p) ''.mp3'' then LoadMP3 p else LoadFLAC p)"
    and ft: "ft = ''mp3'' \<or> ft = ''flac''"
    and eq: "remove_metadata_try F p out k w =
       (case F ld of
          Some m \<Rightarrow> (Inl (OtherError m), emit (Call ld) w)
        | None \<Rightarrow> process F ft (tags_of f) p out k (emit (Call ld) w))"
    by blast
  let ?w0 = "emit (Call ld) w"
  let ?audio = "tags_of f"
  from nold ld have "F ld = None" by simp
  with eq have eq': "remove_metadata_try F p out k w = process F ft ?audio p out k ?w0" by simp
  from delete_tags_pre[OF pre, of p "t # post" ?audio ?w0] obtain evs where
    evs: "calls evs = map DelItem pre"
    and d1: "delete_tags F p (pre @ t # post) ?audio ?w0 =
       delete_tags F p (t # post) (filter (\<lambda>kv. fst kv \<notin> set pre) ?audio) (?w0\<lparr>trace := trace ?w0 @ evs\<rparr>)"
    by blast
  let ?w1 = "?w0\<lparr>trace := trace ?w0 @ evs\<rparr>"
  have "t \<notin> set pre" using pre flt by auto
  moreover have "t \<in> set (keys ?audio)"
    using tags_to_remove_subset[of ?audio k] split by auto
  ultimately have tin: "t \<in> set (keys (filter (\<lambda>kv. fst kv \<notin> set pre) ?audio))"
    by (simp add: keys_filter_notin)
  let ?w2 = "logging ERROR (''Error deleting tag '' @ quote t @ '' from '' @ p @ '': '' @ m) (emit (Call (DelItem t)) ?w1)"
  have d: "delete_tags F p (tags_to_remove ?audio k) ?audio ?w0 = (Inl (OtherError m), ?w2)"
    unfolding split d1 by (rule delete_tags_fault[where F = F, OF tin flt])
  have "remove_metadata_try F p out k w = (Inl (OtherError m), ?w2)"
    unfolding eq' by (rule process_tagged_fail[OF ft d])
  then have r: "remove_metadata F p out k w =
      (Inl (OtherError m), logging ERROR (''An unexpected error occurred: '' @ m) ?w2)"
    by (rule rm_Other)
  let ?w3 = "logging ERROR (''An unexpected error occurred: '' @ m) ?w2"
  have "files ?w3 = files w" by simp
  moreover have "calls (trace ?w3) = calls (trace w) @ ld # map DelItem (pre @ [t])"
    by (simp add: calls_append evs)
  moreover have "trace ?w3 = trace w @ (Call ld # evs) @
                [Call (DelItem t),
                 Log ERROR (''Error deleting tag '' @ quote t @ '' from '' @ p @ '': '' @ m),
                 Log ERROR (''An unexpected error occurred: '' @ m)]"
    by simp
  ultimately show ?thesis using r unfolding ld by blast
qed

theorem deletion_failure_aborts_before_save_witness:
  "endswith (lower ''a.flac'') ''.flac''
   \<and> (\<exists>w'. remove_metadata (\<lambda>c. if c = DelItem ''artist'' then Some ''boom'' else None) ''a.flac'' None None
        \<lparr>files = [''a.flac'' \<mapsto> Some [(''title'', ''T''), (''artist'', ''A''), (''album'', ''B'')]], trace = [], handlers = []\<rparr>
        = (Inl (OtherError ''boom''), w')
      \<and> files w' = [''a.flac'' \<mapsto> Some [(''title'', ''T''), (''artist'', ''A''), (''album'', ''B'')]]
      \<and> calls (trace w') = [LoadFLAC ''a.flac'', DelItem ''title'', DelItem ''artist''])"
proof -
  let ?F = "\<lambda>c. if c = DelItem ''artist'' then Some ''boom'' else None"
  let ?f = "Some [(''title'', ''T''), (''artist'', ''A''), (''album'', ''B'')]"
  let ?w = "\<lparr>files = [''a.flac'' \<mapsto> ?f], trace = [], handlers = []\<rparr>"
  have fl: "endswith (lower ''a.flac'') ''.flac''"
    by (simp add: endswith_def lower_def lower_char_def)
  then have h1: "endswith (lower ''a.flac'') ''.mp3'' \<or> endswith (lower ''a.flac'') ''.flac''" ..
  have h2: "files ?w ''a.flac'' = Some ?f" by simp
  have h3: "endswith (lower ''a.flac'') ''.mp3'' \<longrightarrow> ?f \<noteq> None" by simp
  have h4: "?F (LoadMP3 ''a.flac'') = None \<and> ?F (LoadFLAC ''a.flac'') = None" by simp
  have h5: "tags_to_remove (tags_of ?f) None = [''title''] @ ''artist'' # [''album'']"
    by (simp add: tags_to_remove_def tags_of_def keys_def)
  have h6: "\<forall>u\<in>set [''title'']. ?F (DelItem u) = None" by simp
  have h7: "?F (DelItem ''artist'') = Some ''boom''" by simp
  from deletion_failure_aborts_before_save[where F = ?F and out = None, OF h1 h2 h3 h4 h5 h6 h7]
  obtain w' where r: "remove_metadata ?F ''a.flac'' None None ?w = (Inl (OtherError ''boom''), w')"
    and f: "files w' = files ?w"
    and c: "calls (trace w') = calls (trace ?w) @
        (if endswith (lower ''a.flac'') ''.mp3'' then LoadMP3 ''a.flac'' else LoadFLAC ''a.flac'') #
        map DelItem ([''title''] @ [''artist''])"
    by blast
  from f have f': "files w' = [''a.flac'' \<mapsto> ?f]" by simp
  from c flac_not_mp3[OF fl] have c': "calls (trace w') = [LoadFLAC ''a.flac'', DelItem ''title'', DelItem ''artist'']"
    by simp
  from fl r f' c' show ?thesis by blast
qed

text \<open>
  Claim C9. In an MP3 or FLAC run on a container whose keys are unique, the missing-key
  branch of the delete loop is never taken: the branch logs a warning whenever it runs,
  and the run adds no warning to the trace.
\<close>

theorem missing_key_branch_is_unreachable:
  assumes "endswith (lower p) ''.mp3'' \<or> endswith (lower p) ''.flac''"
    and "files w p = Some f"
    and "endswith (lower p) ''.mp3'' \<longrightarrow> f \<noteq> None"
    and "distinct (keys (tags_of f))"
  shows "filter is_warning (trace (snd (remove_metadata F p out k w))) = filter is_warning (trace w)"
proof -
  from try_tagged[OF assms(1-3), of F out k] obtain ld ft where
    ft: "ft = ''mp3'' \<or> ft = ''flac''"
    and eq: "remove_metadata_try F p out k w =
       (case F ld of
          Some m \<Rightarrow> (Inl (OtherError m), emit (Call ld) w)
        | None \<Rightarrow> process F ft (tags_of f) p out k (emit (Call ld) w))"
    by blast
  have d: "filter is_warning (trace (snd (delete_tags F p (tags_to_remove (tags_of f) k) (tags_of f) (emit (Call ld) w)))) =
      filter is_warning (trace (emit (Call ld) w))"
    by (rule delete_tags_no_warning[OF tags_to_remove_distinct[OF assms(4)] tags_to_remove_subset])
  have t: "filter is_warning (trace (snd (remove_metadata_try F p out k w))) = filter is_warning (trace w)"
  proof (cases "F ld")
    case None
    with eq show ?thesis by (simp add: process_tagged_warnings[OF ft] d)
  next
    case (Some m)
    with eq show ?thesis by simp
  qed
  from rm_snd[of F p out k w] obtain evs where
    "snd (remove_metadata F p out k w) =
       (snd (remove_metadata_try F p out k w))\<lparr>trace := trace (snd (remove_metadata_try F p out k w)) @ evs\<rparr>"
    and "filter is_warning evs = []"
    by blast
  with t show ?thesis by simp
qed

theorem missing_key_branch_is_unreachable_witness:
  "endswith (lower ''song.mp3'') ''.mp3''
   \<and> distinct (keys [(''title'', ''T''), (''artist'', ''A'')])
   \<and> filter is_warning (trace (snd (remove_metadata (\<lambda>c. None) ''song.mp3'' None (Some [''title''])
        \<lparr>files = [''song.mp3'' \<mapsto> Some [(''title'', ''T''), (''artist'', ''A'')]], trace = [], handlers = []\<rparr>))) = []"
proof -
  let ?f = "Some [(''title'', ''T''), (''artist'', ''A'')]"
  let ?w = "\<lparr>files = [''song.mp3'' \<mapsto> ?f], trace = [], handlers = []\<rparr>"
  have h: "endswith (lower ''song.mp3'') ''.mp3''"
    by (simp add: endswith_def lower_def lower_char_def)
  then have h1: "endswith (lower ''song.mp3'') ''.mp3'' \<or> endswith (lower ''song.mp3'') ''.flac''" ..
  have h2: "files ?w ''song.mp3'' = Some ?f" by simp
  have h3: "endswith (lower ''song.mp3'') ''.mp3'' \<longrightarrow> ?f \<noteq> None" by simp
  have h4: "distinct (keys (tags_of ?f))" by (simp add: keys_def tags_of_def)
  from missing_key_branch_is_unreachable[OF h1 h2 h3 h4, of "\<lambda>c. None" None "Some [''title'']"] h h4
  show ?thesis by (simp add: tags_of_def)
qed

text \<open>
  Claim C8. For each of the three formats, a run in place with no keep-list, on which
  no library call fails, completes and leaves the file without tags, and a second run
  on the result completes and leaves the files as the first run left them. With an
  output path, an MP3 file with header or a FLAC file gets the empty container written
  to the save target.
\<close>

theorem removal_without_keep_list_is_idempotent:
  assumes sup: "endswith (lower p) ''.mp3'' \<or> endswith (lower p) ''.flac'' \<or> endswith (lower p) ''.wav''"
    and ex: "files w p = Some f"
    and nf: "\<forall>c. F c = None"
  shows "(\<exists>w1 f1. remove_metadata F p None None w = (Inr (), w1)
           \<and> files w1 p = Some f1 \<and> tags_of f1 = []
           \<and> (\<exists>w2. remove_metadata F p None None w1 = (Inr (), w2) \<and> files w2 = files w1))
    \<and> ((endswith (lower p) ''.mp3'' \<or> endswith (lower p) ''.flac'') \<and> (endswith (lower p) ''.mp3'' \<longrightarrow> f \<noteq> None) \<longrightarrow>
           (\<exists>w1. remove_metadata F p out None w = (Inr (), w1) \<and> files w1 (target p out) = Some (Some [])))"
proof -
  have p2: "(endswith (lower p) ''.mp3'' \<or> endswith (lower p) ''.flac'') \<and> (endswith (lower p) ''.mp3'' \<longrightarrow> f \<noteq> None) \<longrightarrow>
           (\<exists>w1. remove_metadata F p out None w = (Inr (), w1) \<and> files w1 (target p out) = Some (Some []))"
  proof
    assume a: "(endswith (lower p) ''.mp3'' \<or> endswith (lower p) ''.flac'') \<and> (endswith (lower p) ''.mp3'' \<longrightarrow> f \<noteq> None)"
    let ?r = "remove_metadata F p out None w"
    from nf have "fst ?r = Inr ()"
      by (intro run_completes[OF conjunct1[OF a] ex conjunct2[OF a]]) simp_all
    then have r: "?r = (Inr (), snd ?r)" by (metis prod.collapse)
    from completed_run(1)[OF conjunct1[OF a] ex conjunct2[OF a] r]
    have "files (snd ?r) (target p out) = Some (Some [])" by (simp add: kept_def)
    with r show "\<exists>w1. ?r = (Inr (), w1) \<and> files w1 (target p out) = Some (Some [])" by blast
  qed
  consider (noheader) "endswith (lower p) ''.mp3''" "f = None"
    | (tagged) "endswith (lower p) ''.mp3'' \<or> endswith (lower p) ''.flac''" "endswith (lower p) ''.mp3'' \<longrightarrow> f \<noteq> None"
    | (wav) "endswith (lower p) ''.wav''"
    using sup by blast
  then have p1: "\<exists>w1 f1. remove_metadata F p None None w = (Inr (), w1)
           \<and> files w1 p = Some f1 \<and> tags_of f1 = []
           \<and> (\<exists>w2. remove_metadata F p None None w1 = (Inr (), w2) \<and> files w2 = files w1)"
  proof cases
    case noheader
    let ?w1 = "w\<lparr>trace := trace w @ [Call (LoadMP3 p),
        Log WARNING (''No ID3 header found in '' @ p @ ''.  Skipping metadata removal.'')]\<rparr>"
    from ex noheader have e: "files w p = Some None" by simp
    from nf have l: "F (LoadMP3 p) = None" by simp
    have r1: "remove_metadata F p None None w = (Inr (), ?w1)"
      by (rule mp3_noheader_run[where F = F, OF noheader(1) e l])
    have e1: "files ?w1 p = Some None" using e by simp
    have r2: "remove_metadata F p None None ?w1 = (Inr (), ?w1\<lparr>trace := trace ?w1 @ [Call (LoadMP3 p),
        Log WARNING (''No ID3 header found in '' @ p @ ''.  Skipping metadata removal.'')]\<rparr>)"
      by (rule mp3_noheader_run[where F = F, OF noheader(1) e1 l])
    have "files ?w1 p = Some None \<and> tags_of None = []" using e by (simp add: tags_of_def)
    with r1 r2 show ?thesis by fastforce
  next
    case tagged
    have t: "target p None = p" by (simp add: target_def)
    have k: "kept None = []" by (simp add: kept_def)
    let ?r1 = "remove_metadata F p None None w"
    from nf have "fst ?r1 = Inr ()"
      by (intro run_completes[OF tagged(1) ex tagged(2)]) simp_all
    then have r1: "?r1 = (Inr (), snd ?r1)" by (metis prod.collapse)
    from completed_run(1)[OF tagged(1) ex tagged(2) r1]
    have f1: "files (snd ?r1) = (files w)(p \<mapsto> Some [])" by (simp add: t k)
    then have e1: "files (snd ?r1) p = Some (Some [])" by simp
    have h1: "endswith (lower p) ''.mp3'' \<longrightarrow> Some ([] :: container) \<noteq> None" by simp
    let ?r2 = "remove_metadata F p None None (snd ?r1)"
    from nf have "fst ?r2 = Inr ()"
      by (intro run_completes[OF tagged(1) e1 h1]) simp_all
    then have r2: "?r2 = (Inr (), snd ?r2)" by (metis prod.collapse)
    from completed_run(1)[OF tagged(1) e1 h1 r2]
    have "files (snd ?r2) = (files (snd ?r1))(p \<mapsto> Some [])" by (simp add: t k tags_of_def)
    with e1 have f2: "files (snd ?r2) = files (snd ?r1)" by (simp add: fun_upd_idem)
    have "tags_of (Some []) = []" by (simp add: tags_of_def)
    with r1 e1 r2 f2 show ?thesis by blast
  next
    case wav
    from nf have l: "F (LoadWAVE p) = None" "F (LoadID3 p) = None" "F (ID3Delete p) = None" by simp_all
    have absent: "\<exists>w2. remove_metadata F p None None w1 = (Inr (), w2) \<and> files w2 = files w1"
      if "files w1 p = Some None" for w1
      using wav_run_absent[where F = F and out = None and k = None, OF wav that l(1,2)] by simp
    show ?thesis
    proof (cases f)
      case None
      with ex have e: "files w p = Some None" by simp
      let ?w1 = "w\<lparr>trace := trace w @ [Call (LoadWAVE p), Call (LoadID3 p),
                  Log INFO (''No ID3 tags found in '' @ p @ ''.''),
                  Log INFO (''ID3 metadata removed from '' @ p @ ''.'')]\<rparr>"
      have r1: "remove_metadata F p None None w = (Inr (), ?w1)"
        by (rule wav_run_absent[where F = F, OF wav e l(1,2)])
      have e1: "files ?w1 p = Some None" using e by simp
      from absent[OF e1] r1 e1 show ?thesis by (fastforce simp: tags_of_def)
    next
      case (Some id3)
      with ex have e: "files w p = Some (Some id3)" by simp
      let ?w1 = "w\<lparr>files := (files w)(p \<mapsto> None),
                trace := trace w @ [Call (LoadWAVE p), Call (LoadID3 p), Call (ID3Delete p),
                  Log INFO (''ID3 tags removed from '' @ p),
                  Log INFO (''ID3 metadata removed from '' @ p @ ''.'')]\<rparr>"
      have r1: "remove_metadata F p None None w = (Inr (), ?w1)"
        by (rule wav_run_present[where F = F, OF wav e l])
      have e1: "files ?w1 p = Some None" by simp
      from absent[OF e1] r1 e1 show ?thesis by (fastforce simp: tags_of_def)
    qed
  qed
  from p1 p2 show ?thesis by (rule conjI)
qed

theorem removal_without_keep_list_is_idempotent_witness:
  "endswith (lower ''a.flac'') ''.flac''
   \<and> (\<exists>w1 w2. remove_metadata (\<lambda>c. None) ''a.flac'' None None
          \<lparr>files = [''a.flac'' \<mapsto> Some [(''title'', ''T''), (''artist'', ''A'')]], trace = [], handlers = []\<rparr> = (Inr (), w1)
        \<and> (\<exists>f1. files w1 ''a.flac'' = Some f1 \<and> tags_of f1 = [])
        \<and> remove_metadata (\<lambda>c. None) ''a.flac'' None None w1 = (Inr (), w2)
        \<and> files w2 = files w1)"
proof -
  let ?f = "Some [(''title'', ''T''), (''artist'', ''A'')]"
  let ?w = "\<lparr>files = [''a.flac'' \<mapsto> ?f], trace = [], handlers = []\<rparr>"
  have fl: "endswith (lower ''a.flac'') ''.flac''"
    by (simp add: endswith_def lower_def lower_char_def)
  then have h1: "endswith (lower ''a.flac'') ''.mp3'' \<or> endswith (lower ''a.flac'') ''.flac'' \<or> endswith (lower ''a.flac'') ''.wav''"
    by blast
  have h2: "files ?w ''a.flac'' = Some ?f" by simp
  have h3: "\<forall>c. (\<lambda>c. None :: string option) c = None" by simp
  from conjunct1[OF removal_without_keep_list_is_idempotent[where F = "\<lambda>c. None", OF h1 h2 h3]] fl
  show ?thesis by blast
qed

end
